theory Spec2Isabelle
  imports Main
begin

section \<open>Data model (src/db/models.py)\<close>

text \<open>
  Naive datetimes (the TIMESTAMP columns, \<open>datetime.utcnow()\<close>) are integers counting
  microseconds. A datetime received from a form may carry a UTC offset. Columns that
  the database server fills by itself (autoincrement keys of history and image rows,
  \<open>created_at\<close>, \<open>updated_at\<close>, \<open>changed_at\<close>) are not part of the rows below; tables of
  such rows are lists in insertion order.
\<close>

type_synonym timestamp = int

record form_datetime =
  wall :: timestamp
  utcoffset :: "int option"

definition timedelta_days :: "int \<Rightarrow> int" where
  "timedelta_days n = n * 24 * 3600 * 1000000"

text \<open>
  Modelled from the spec: src/task/enums.py (\<open>TaskStatus\<close>, \<open>TaskPriority\<close>) is not among
  the sources, and the spec speaks of status fields only. \<open>ACTIVE\<close>, \<open>COMPLETED\<close> and
  \<open>MEDIUM\<close> are the members the routes and the models name; any further member is kept
  by its value.
\<close>

datatype TaskStatus = ACTIVE | COMPLETED | STATUS_OTHER string

datatype TaskPriority = MEDIUM | PRIORITY_OTHER string

text \<open>
  JSON values stored in \<open>TaskHistory.changes\<close>. \<open>JIso d\<close> is the string \<open>d.isoformat()\<close>,
  \<open>JStatus\<close> and \<open>JPriority\<close> are the rendering of an enum member's value. A dict is an
  association list in insertion order.
\<close>

datatype json =
    JNull
  | JStr string
  | JInt int
  | JIso form_datetime
  | JStatus TaskStatus
  | JPriority TaskPriority
  | JList "string list"
  | JDict "(string \<times> json) list"

record User =
  user_id :: int
  role_id :: int
  is_deleted :: bool

record Article =
  title :: string
  content :: string
  author_id :: int
  is_deleted :: bool
  deleted_at :: "timestamp option"

record ArticleImage =
  article_id :: int
  image_path :: string

record ArticleHistory =
  article_id :: int
  user_id :: int
  event :: string
  old_title :: "string option"
  new_title :: "string option"
  old_content :: "string option"
  new_content :: "string option"

record Task =
  title :: string
  description :: "string option"
  status :: TaskStatus
  priority :: TaskPriority
  due_date :: "timestamp option"
  author_id :: int
  assignee_id :: int
  image_paths :: "string list option"
  is_deleted :: bool
  deleted_at :: "timestamp option"

record TaskHistory =
  task_id :: int
  user_id :: int
  event :: string
  comment :: "string option"
  changes :: "(string \<times> json) list option"

section \<open>The store and the session\<close>

text \<open>
  The tables of the backing store. The tables the handlers select from by primary key
  are maps from the key: the column \<open>id\<close> of a task or an article is the key of its row.
\<close>

record database =
  users :: "int \<rightharpoonup> User"
  tasks :: "int \<rightharpoonup> Task"
  task_history :: "TaskHistory list"
  articles :: "int \<rightharpoonup> Article"
  article_images :: "ArticleImage list"
  article_history :: "ArticleHistory list"

text \<open>
  An \<open>AsyncSession\<close>: the committed store and the session's own view of it, which holds
  the objects added and the attributes set since the last commit.
\<close>

record AsyncSession =
  committed :: database
  pending :: database

text \<open>
  What a request does not determine: the clock, the server's local UTC offset (used by
  \<open>astimezone\<close> on a naive datetime), the primary key the store hands out at \<open>flush\<close>,
  whether the store accepts the commit, and whether the read of \<open>refresh\<close> that follows
  a commit fails.
\<close>

record env =
  utcnow :: timestamp
  local_utcoffset :: int
  new_id :: int
  commit_fails :: bool
  refresh_fails :: bool

text \<open>
  The detail texts of the HTTP errors. The Russian texts of the source are named in
  English here; \<open>Wrapped p e\<close> is the f-string that puts \<open>str(e)\<close> after the prefix \<open>p\<close>.
\<close>

datatype message =
    Assignee_not_found
  | Task_not_found_en
  | Task_not_found
  | Task_not_found_or_expired
  | Insufficient_rights
  | Task_deleted_ok
  | Unsupported_file_format
  | Article_not_found
  | Article_not_found_or_expired
  | Access_denied
  | Article_deleted_ok

datatype prefix =
    Error_creating_task
  | Error_deleting_task
  | Error_restoring_task
  | Error_creating_article
  | Error_updating_article
  | Error_deleting_article
  | Error_restoring_article

datatype exn =
    HTTPException nat detail
  | DBError
and detail =
    Msg message
  | Wrapped prefix exn

datatype response =
    TaskResponse int Task
  | ArticleResponse int Article
  | MessageResponse message

type_synonym outcome = "(exn + response) \<times> AsyncSession"

text \<open>
  Modelled from the spec: src/db/database.py (\<open>get_db\<close>) is not among the sources. A
  request is one unit of work on the backing store (section 5 of the spec): it gets a
  fresh session, and what a handler leaves pending when it raises is dropped with the
  session.
\<close>

definition begin_session :: "database \<Rightarrow> AsyncSession" where
  "begin_session d = \<lparr>committed = d, pending = d\<rparr>"

definition commit :: "env \<Rightarrow> AsyncSession \<Rightarrow> exn + AsyncSession" where
  "commit e db = (if commit_fails e then Inl DBError else Inr (db\<lparr>committed := pending db\<rparr>))"

definition rollback :: "AsyncSession \<Rightarrow> AsyncSession" where
  "rollback db = db\<lparr>pending := committed db\<rparr>"

text \<open>
  \<open>db.refresh(obj)\<close> after a commit: the row is read again from the store, and the read
  may fail.
\<close>

definition refresh_task :: "env \<Rightarrow> AsyncSession \<Rightarrow> int \<Rightarrow> exn + Task" where
  "refresh_task e db k =
     (if refresh_fails e then Inl DBError
      else case tasks (committed db) k of None \<Rightarrow> Inl DBError | Some row \<Rightarrow> Inr row)"

definition refresh_article :: "env \<Rightarrow> AsyncSession \<Rightarrow> int \<Rightarrow> exn + Article" where
  "refresh_article e db k =
     (if refresh_fails e then Inl DBError
      else case articles (committed db) k of None \<Rightarrow> Inl DBError | Some row \<Rightarrow> Inr row)"

text \<open>
  The lines that end the handlers which answer with the entity:
  \<open>await db.commit()\<close>, \<open>await db.refresh(obj)\<close>, \<open>return obj\<close>. The session given is the
  one the handler has filled; an exception of the commit or of the refresh is raised
  to the handler.
\<close>

definition commit_refresh_task :: "env \<Rightarrow> AsyncSession \<Rightarrow> int \<Rightarrow> (exn + response) \<times> AsyncSession"
where
  "commit_refresh_task e db k =
     (case commit e db of
        Inl x \<Rightarrow> (Inl x, db)
      | Inr db' \<Rightarrow>
          (case refresh_task e db' k of
             Inl x \<Rightarrow> (Inl x, db')
           | Inr row \<Rightarrow> (Inr (TaskResponse k row), db')))"

definition commit_refresh_article ::
  "env \<Rightarrow> AsyncSession \<Rightarrow> int \<Rightarrow> (exn + response) \<times> AsyncSession"
where
  "commit_refresh_article e db k =
     (case commit e db of
        Inl x \<Rightarrow> (Inl x, db)
      | Inr db' \<Rightarrow>
          (case refresh_article e db' k of
             Inl x \<Rightarrow> (Inl x, db')
           | Inr row \<Rightarrow> (Inr (ArticleResponse k row), db')))"

definition set_task :: "AsyncSession \<Rightarrow> int \<Rightarrow> Task \<Rightarrow> AsyncSession" where
  "set_task db k t = db\<lparr>pending := (pending db)\<lparr>tasks := (tasks (pending db))(k \<mapsto> t)\<rparr>\<rparr>"

definition set_article :: "AsyncSession \<Rightarrow> int \<Rightarrow> Article \<Rightarrow> AsyncSession" where
  "set_article db k a =
     db\<lparr>pending := (pending db)\<lparr>articles := (articles (pending db))(k \<mapsto> a)\<rparr>\<rparr>"

definition add_task_history :: "AsyncSession \<Rightarrow> TaskHistory \<Rightarrow> AsyncSession" where
  "add_task_history db h =
     db\<lparr>pending := (pending db)\<lparr>task_history := task_history (pending db) @ [h]\<rparr>\<rparr>"

definition add_article_history :: "AsyncSession \<Rightarrow> ArticleHistory \<Rightarrow> AsyncSession" where
  "add_article_history db h =
     db\<lparr>pending := (pending db)\<lparr>article_history := article_history (pending db) @ [h]\<rparr>\<rparr>"

definition add_article_image :: "AsyncSession \<Rightarrow> ArticleImage \<Rightarrow> AsyncSession" where
  "add_article_image db i =
     db\<lparr>pending := (pending db)\<lparr>article_images := article_images (pending db) @ [i]\<rparr>\<rparr>"

section \<open>Uploaded files\<close>

text \<open>
  An uploaded file, as far as the handlers look at it: \<open>file_ext\<close> is
  \<open>os.path.splitext(file.filename)[1].lower()\<close>, and \<open>token\<close> is the random hexadecimal
  text the server draws for the file (\<open>uuid4().hex\<close>, \<open>token_hex(4)\<close>).
\<close>

record upload =
  file_ext :: string
  token :: string

fun str_nat :: "nat \<Rightarrow> string" where
  "str_nat n =
     (if n < 10 then [char_of (48 + n)] else str_nat (n div 10) @ [char_of (48 + n mod 10)])"

declare str_nat.simps [simp del]

definition str_int :: "int \<Rightarrow> string" where
  "str_int i = (if i < 0 then CHR ''-'' # str_nat (nat (- i)) else str_nat (nat i))"

text \<open>src/task/routes.py, \<open>save_uploaded_file\<close>: no check of the extension.\<close>

definition task_save_uploaded_file :: "upload \<Rightarrow> int \<Rightarrow> string" where
  "task_save_uploaded_file file tid = ''task_'' @ str_int tid @ ''_'' @ token file @ file_ext file"

definition allowed_extensions :: "string set" where
  "allowed_extensions = {''.png'', ''.jpg'', ''.jpeg'', ''.gif'', ''.webp''}"

text \<open>src/article/routes.py, \<open>save_uploaded_file\<close>.\<close>

definition article_save_uploaded_file :: "upload \<Rightarrow> exn + string" where
  "article_save_uploaded_file file =
     (if file_ext file \<notin> allowed_extensions
      then Inl (HTTPException 400 (Msg Unsupported_file_format))
      else Inr (''article_'' @ token file @ file_ext file))"

section \<open>Task routes (src/task/routes.py)\<close>

definition ADMIN_ROLE_ID :: int where
  "ADMIN_ROLE_ID = 2"

definition verify_assignee :: "AsyncSession \<Rightarrow> int \<Rightarrow> exn + User" where
  "verify_assignee db aid =
     (case users (pending db) aid of
        None \<Rightarrow> Inl (HTTPException 404 (Msg Assignee_not_found))
      | Some user \<Rightarrow>
          if User.is_deleted user then Inl (HTTPException 404 (Msg Assignee_not_found))
          else Inr user)"

text \<open>\<open>due_date.astimezone(timezone.utc).replace(tzinfo=None)\<close>\<close>

definition to_utc_naive :: "env \<Rightarrow> form_datetime \<Rightarrow> timestamp" where
  "to_utc_naive e d =
     (case utcoffset d of Some off \<Rightarrow> wall d - off | None \<Rightarrow> wall d - local_utcoffset e)"

definition image_added :: "User \<Rightarrow> int \<Rightarrow> string \<Rightarrow> TaskHistory" where
  "image_added current_user tid file_name =
     \<lparr>TaskHistory.task_id = tid, TaskHistory.user_id = User.user_id current_user,
      TaskHistory.event = ''IMAGE_ADDED'', TaskHistory.comment = None,
      TaskHistory.changes = Some [(''image_path'', JStr file_name)]\<rparr>"

text \<open>
  The loop \<open>for image in images\<close> of \<open>create_task\<close> and \<open>update_task\<close>: the stored name is
  appended to the list of paths and an IMAGE_ADDED record is added for each file \<open>img\<close>.
\<close>

fun task_images_loop ::
  "User \<Rightarrow> int \<Rightarrow> upload list \<Rightarrow> string list \<Rightarrow> AsyncSession \<Rightarrow> string list \<times> AsyncSession"
where
  "task_images_loop current_user tid [] paths db = (paths, db)"
| "task_images_loop current_user tid (img # images) paths db =
     (let file_name = task_save_uploaded_file img tid
      in task_images_loop current_user tid images (paths @ [file_name])
           (add_task_history db (image_added current_user tid file_name)))"


text \<open>
  \<open>create_task\<close>, the body of its \<open>try\<close>. The form's \<open>due_date\<close> has been brought to naive
  UTC before (lines 52-53). \<open>flush\<close> inserts the task under the key the store assigns; a
  key already in use is refused by the store.
\<close>

definition create_task_try ::
  "env \<Rightarrow> AsyncSession \<Rightarrow> User \<Rightarrow> string \<Rightarrow> string option \<Rightarrow> int \<Rightarrow> timestamp option \<Rightarrow>
   TaskStatus \<Rightarrow> TaskPriority \<Rightarrow> upload list \<Rightarrow> outcome"
where
  "create_task_try e db current_user title' description' assignee_id' due_date' status' priority' images =
     (case verify_assignee db assignee_id' of
        Inl x \<Rightarrow> (Inl x, db)
      | Inr u \<Rightarrow>
          let task = \<lparr>Task.title = title', Task.description = description',
                      Task.status = status', Task.priority = priority', Task.due_date = due_date',
                      Task.author_id = User.user_id current_user, Task.assignee_id = assignee_id',
                      Task.image_paths = Some [], Task.is_deleted = False,
                      Task.deleted_at = None\<rparr>
          in if tasks (pending db) (new_id e) \<noteq> None then (Inl DBError, db)
             else
               let db1 = set_task db (new_id e) task;
                   (task1, db2) =
                     (if images \<noteq> [] then
                        (let (image_paths', db') =
                               task_images_loop current_user (new_id e) images [] db1
                         in (task\<lparr>Task.image_paths := Some image_paths'\<rparr>, db'))
                      else (task, db1));
                   history_task_data =
                     [(''title'', JStr title'),
                      (''description'', (case description' of None \<Rightarrow> JNull | Some d \<Rightarrow> JStr d)),
                      (''assignee_id'', JInt assignee_id'),
                      (''due_date'',
                         (case due_date' of None \<Rightarrow> JNull
                          | Some d \<Rightarrow> JIso \<lparr>wall = d, utcoffset = None\<rparr>)),
                      (''author_id'', JInt (User.user_id current_user)),
                      (''status'', JStatus status'),
                      (''priority'', JPriority priority'),
                      (''image_paths'', JList [])];
                   db3 = add_task_history (set_task db2 (new_id e) task1)
                           \<lparr>TaskHistory.task_id = new_id e,
                            TaskHistory.user_id = User.user_id current_user,
                            TaskHistory.event = ''TASK_CREATED'', TaskHistory.comment = None,
                            TaskHistory.changes = Some history_task_data\<rparr>
               in commit_refresh_task e db3 (new_id e))"

definition create_task ::
  "env \<Rightarrow> AsyncSession \<Rightarrow> User \<Rightarrow> string \<Rightarrow> string option \<Rightarrow> int \<Rightarrow> form_datetime option \<Rightarrow>
   TaskStatus \<Rightarrow> TaskPriority \<Rightarrow> upload list \<Rightarrow> outcome"
where
  "create_task e db current_user title' description' assignee_id' due_date' status' priority' images =
     (let due_date' = map_option (to_utc_naive e) due_date'
      in case create_task_try e db current_user title' description' assignee_id' due_date' status'
                priority' images of
           (Inl x, db') \<Rightarrow> (Inl (HTTPException 500 (Wrapped Error_creating_task x)), rollback db')
         | (Inr r, db') \<Rightarrow> (Inr r, db'))"

text \<open>\<open>update_task\<close>, lines 126-138: the fields set on the task that was fetched.\<close>

definition update_task_fields ::
  "env \<Rightarrow> AsyncSession \<Rightarrow> Task \<Rightarrow> string option \<Rightarrow> string option \<Rightarrow> int option \<Rightarrow>
   form_datetime option \<Rightarrow> TaskStatus option \<Rightarrow> TaskPriority option \<Rightarrow> (exn + Task) \<times> Task"
where
  "update_task_fields e db task title' description' assignee_id' due_date' status' priority' =
     (let task1 = (case title' of None \<Rightarrow> task | Some v \<Rightarrow> task\<lparr>Task.title := v\<rparr>);
          task2 = (case description' of None \<Rightarrow> task1
                   | Some v \<Rightarrow> task1\<lparr>Task.description := Some v\<rparr>)
      in case (case assignee_id' of None \<Rightarrow> Inr task2
               | Some a \<Rightarrow>
                   (case verify_assignee db a of Inl x \<Rightarrow> Inl x
                    | Inr u \<Rightarrow> Inr (task2\<lparr>Task.assignee_id := a\<rparr>))) of
           Inl x \<Rightarrow> (Inl x, task2)
         | Inr task3 \<Rightarrow>
             let task4 = (case due_date' of None \<Rightarrow> task3
                          | Some d \<Rightarrow> task3\<lparr>Task.due_date := Some (to_utc_naive e d)\<rparr>);
                 task5 = (case status' of None \<Rightarrow> task4 | Some v \<Rightarrow> task4\<lparr>Task.status := v\<rparr>);
                 task6 = (case priority' of None \<Rightarrow> task5
                          | Some v \<Rightarrow> task5\<lparr>Task.priority := v\<rparr>)
             in (Inr task6, task6))"

text \<open>\<open>update_task\<close>, lines 154-168: the dict \<open>changes\<close>.\<close>

definition update_task_changes ::
  "Task \<Rightarrow> string option \<Rightarrow> string option \<Rightarrow> int option \<Rightarrow> form_datetime option \<Rightarrow>
   TaskStatus option \<Rightarrow> TaskPriority option \<Rightarrow> upload list \<Rightarrow> (string \<times> json) list"
where
  "update_task_changes task title' description' assignee_id' due_date' status' priority' images =
     (case title' of None \<Rightarrow> [] | Some v \<Rightarrow> [(''title'', JStr v)]) @
     (case description' of None \<Rightarrow> [] | Some v \<Rightarrow> [(''description'', JStr v)]) @
     (case assignee_id' of None \<Rightarrow> [] | Some v \<Rightarrow> [(''assignee_id'', JInt v)]) @
     (case due_date' of None \<Rightarrow> [] | Some v \<Rightarrow> [(''due_date'', JIso v)]) @
     (case status' of None \<Rightarrow> [] | Some v \<Rightarrow> [(''status'', JStatus v)]) @
     (case priority' of None \<Rightarrow> [] | Some v \<Rightarrow> [(''priority'', JPriority v)]) @
     (if images \<noteq> [] then
        [(''image_paths'', (case Task.image_paths task of None \<Rightarrow> JNull | Some ps \<Rightarrow> JList ps))]
      else [])"

text \<open>
  \<open>update_task\<close>, lines 142-152, and the column \<open>image_paths\<close>. The column is a plain JSON
  column (models.py, line 111): at flush an attribute is written when its value differs
  from the value it had when the row was loaded. Line 142 takes the loaded list itself
  when it is not empty; lines 145 and 152 append to it in place and assign the same
  object back, so that the value compares equal to what was loaded and the column is not
  written. A null or empty list is replaced by a new list, which is written. The first
  argument is the list as loaded, the second the list the loop has built.
\<close>

definition flushed_image_paths :: "string list option \<Rightarrow> string list \<Rightarrow> string list option"
where
  "flushed_image_paths loaded built =
     (case loaded of
        None \<Rightarrow> Some built
      | Some [] \<Rightarrow> Some built
      | Some (p # ps) \<Rightarrow> Some (p # ps))"

text \<open>
  \<open>update_task\<close>. The task is selected by its key alone; there is no \<open>try\<close>, so an
  exception leaves the handler as it is raised. \<open>task7\<close> is the task object as the handler
  holds it (the dict \<open>changes\<close> reads its \<open>image_paths\<close>), \<open>row7\<close> the row the flush writes.
\<close>

definition update_task ::
  "env \<Rightarrow> AsyncSession \<Rightarrow> User \<Rightarrow> int \<Rightarrow> string option \<Rightarrow> string option \<Rightarrow> int option \<Rightarrow>
   form_datetime option \<Rightarrow> TaskStatus option \<Rightarrow> TaskPriority option \<Rightarrow> upload list \<Rightarrow> outcome"
where
  "update_task e db current_user tid title' description' assignee_id' due_date' status' priority' images =
     (case tasks (pending db) tid of
        None \<Rightarrow> (Inl (HTTPException 404 (Msg Task_not_found_en)), db)
      | Some task \<Rightarrow>
          (case update_task_fields e db task title' description' assignee_id' due_date' status'
                  priority' of
             (Inl x, task') \<Rightarrow> (Inl x, set_task db tid task')
           | (Inr task6, _) \<Rightarrow>
               let (task7, row7, db1) =
                     (if images \<noteq> [] then
                        (let (image_paths', db') =
                               task_images_loop current_user tid images
                                 (case Task.image_paths task6 of None \<Rightarrow> []
                                  | Some ps \<Rightarrow> ps) db
                         in (task6\<lparr>Task.image_paths := Some image_paths'\<rparr>,
                             task6\<lparr>Task.image_paths :=
                                     flushed_image_paths (Task.image_paths task6) image_paths'\<rparr>,
                             db'))
                      else (task6, task6, db));
                   changes' = update_task_changes task7 title' description' assignee_id' due_date'
                               status' priority' images;
                   db2 = (if changes' \<noteq> [] then
                            add_task_history db1
                              \<lparr>TaskHistory.task_id = tid,
                               TaskHistory.user_id = User.user_id current_user,
                               TaskHistory.event = ''TASK_UPDATED'', TaskHistory.comment = None,
                               TaskHistory.changes = Some changes'\<rparr>
                          else db1);
                   db3 = set_task db2 tid row7
               in commit_refresh_task e db3 tid))"

definition title_description :: "Task \<Rightarrow> (string \<times> json) list" where
  "title_description task =
     [(''title'', JStr (Task.title task)),
      (''description'', (case Task.description task of None \<Rightarrow> JNull | Some d \<Rightarrow> JStr d))]"

definition delete_task_try :: "env \<Rightarrow> AsyncSession \<Rightarrow> User \<Rightarrow> int \<Rightarrow> outcome" where
  "delete_task_try e db current_user tid =
     (case tasks (pending db) tid of
        None \<Rightarrow> (Inl (HTTPException 404 (Msg Task_not_found)), db)
      | Some task \<Rightarrow>
          if Task.is_deleted task then (Inl (HTTPException 404 (Msg Task_not_found)), db)
          else if User.role_id current_user \<noteq> ADMIN_ROLE_ID \<and>
                  Task.author_id task \<noteq> User.user_id current_user
          then (Inl (HTTPException 403 (Msg Insufficient_rights)), db)
          else
            let task1 = task\<lparr>Task.is_deleted := True, Task.deleted_at := Some (utcnow e)\<rparr>;
                db1 = add_task_history (set_task db tid task1)
                        \<lparr>TaskHistory.task_id = tid,
                         TaskHistory.user_id = User.user_id current_user,
                         TaskHistory.event = ''TASK_DELETED'', TaskHistory.comment = None,
                         TaskHistory.changes = Some (title_description task1)\<rparr>
            in (case commit e db1 of
                  Inl x \<Rightarrow> (Inl x, db1)
                | Inr db2 \<Rightarrow> (Inr (MessageResponse Task_deleted_ok), db2)))"

definition delete_task :: "env \<Rightarrow> AsyncSession \<Rightarrow> User \<Rightarrow> int \<Rightarrow> outcome" where
  "delete_task e db current_user tid =
     (case delete_task_try e db current_user tid of
        (Inl x, db') \<Rightarrow> (Inl (HTTPException 500 (Wrapped Error_deleting_task x)), rollback db')
      | (Inr r, db') \<Rightarrow> (Inr r, db'))"

text \<open>\<open>reassign_task\<close>: no \<open>try\<close>.\<close>

definition reassign_task ::
  "env \<Rightarrow> AsyncSession \<Rightarrow> User \<Rightarrow> int \<Rightarrow> int \<Rightarrow> string option \<Rightarrow> outcome"
where
  "reassign_task e db current_user tid new_assignee_id comment' =
     (case tasks (pending db) tid of
        None \<Rightarrow> (Inl (HTTPException 404 (Msg Task_not_found)), db)
      | Some task \<Rightarrow>
          if Task.is_deleted task then (Inl (HTTPException 404 (Msg Task_not_found)), db)
          else if User.role_id current_user \<noteq> ADMIN_ROLE_ID \<and>
                  Task.author_id task \<noteq> User.user_id current_user
          then (Inl (HTTPException 403 (Msg Insufficient_rights)), db)
          else
            (case verify_assignee db new_assignee_id of
               Inl x \<Rightarrow> (Inl x, db)
             | Inr u \<Rightarrow>
                 let changes' = [(''assignee_id'',
                                  JDict [(''old'', JInt (Task.assignee_id task)),
                                         (''new'', JInt new_assignee_id)])];
                     task1 = task\<lparr>Task.assignee_id := new_assignee_id\<rparr>;
                     db1 = add_task_history (set_task db tid task1)
                             \<lparr>TaskHistory.task_id = tid,
                              TaskHistory.user_id = User.user_id current_user,
                              TaskHistory.event = ''TASK_REASSIGNED'',
                              TaskHistory.comment = comment',
                              TaskHistory.changes = Some changes'\<rparr>
                 in commit_refresh_task e db1 tid))"

text \<open>
  \<open>restore_task\<close>. The query selects a row whose key matches, whose flag is set and whose
  \<open>deleted_at\<close> is not older than seven days; a NULL \<open>deleted_at\<close> matches no comparison.
\<close>

definition restorable :: "env \<Rightarrow> bool \<Rightarrow> timestamp option \<Rightarrow> bool" where
  "restorable e flag stamp =
     (flag \<and> (case stamp of None \<Rightarrow> False | Some d \<Rightarrow> d \<ge> utcnow e - timedelta_days 7))"

definition restore_task_try :: "env \<Rightarrow> AsyncSession \<Rightarrow> User \<Rightarrow> int \<Rightarrow> outcome" where
  "restore_task_try e db current_user tid =
     (case tasks (pending db) tid of
        None \<Rightarrow> (Inl (HTTPException 404 (Msg Task_not_found_or_expired)), db)
      | Some task \<Rightarrow>
          if \<not> restorable e (Task.is_deleted task) (Task.deleted_at task)
          then (Inl (HTTPException 404 (Msg Task_not_found_or_expired)), db)
          else if User.role_id current_user \<noteq> ADMIN_ROLE_ID \<and>
                  Task.author_id task \<noteq> User.user_id current_user
          then (Inl (HTTPException 403 (Msg Insufficient_rights)), db)
          else
            let task1 = task\<lparr>Task.is_deleted := False, Task.deleted_at := None\<rparr>;
                db1 = add_task_history (set_task db tid task1)
                        \<lparr>TaskHistory.task_id = tid,
                         TaskHistory.user_id = User.user_id current_user,
                         TaskHistory.event = ''TASK_RESTORED'', TaskHistory.comment = None,
                         TaskHistory.changes = Some (title_description task1)\<rparr>
            in commit_refresh_task e db1 tid)"

definition restore_task :: "env \<Rightarrow> AsyncSession \<Rightarrow> User \<Rightarrow> int \<Rightarrow> outcome" where
  "restore_task e db current_user tid =
     (case restore_task_try e db current_user tid of
        (Inl x, db') \<Rightarrow> (Inl (HTTPException 500 (Wrapped Error_restoring_task x)), rollback db')
      | (Inr r, db') \<Rightarrow> (Inr r, db'))"


section \<open>Article routes (src/article/routes.py)\<close>

text \<open>
  The loop \<open>for image in images\<close> of \<open>create_article\<close> and \<open>update_article\<close>: an
  \<open>ArticleImage\<close> row is added for each file \<open>img\<close>; a file that \<open>save_uploaded_file\<close>
  refuses ends the loop with its exception.
\<close>

fun article_images_loop :: "int \<Rightarrow> upload list \<Rightarrow> AsyncSession \<Rightarrow> exn option \<times> AsyncSession"
where
  "article_images_loop aid [] db = (None, db)"
| "article_images_loop aid (img # images) db =
     (case article_save_uploaded_file img of
        Inl x \<Rightarrow> (Some x, db)
      | Inr filename \<Rightarrow>
          article_images_loop aid images
            (add_article_image db
               \<lparr>ArticleImage.article_id = aid, ArticleImage.image_path = filename\<rparr>))"

definition create_article_try ::
  "env \<Rightarrow> AsyncSession \<Rightarrow> User \<Rightarrow> string \<Rightarrow> string \<Rightarrow> upload list \<Rightarrow> outcome"
where
  "create_article_try e db current_user title' content' images =
     (let article = \<lparr>Article.title = title', Article.content = content',
                      Article.author_id = User.user_id current_user,
                      Article.is_deleted = False, Article.deleted_at = None\<rparr>
      in if articles (pending db) (new_id e) \<noteq> None then (Inl DBError, db)
         else
           (case (if images \<noteq> [] then
                    article_images_loop (new_id e) images (set_article db (new_id e) article)
                  else (None, set_article db (new_id e) article)) of
              (Some x, db1) \<Rightarrow> (Inl x, db1)
            | (None, db1) \<Rightarrow>
                let history_entry =
                      \<lparr>ArticleHistory.article_id = new_id e,
                       ArticleHistory.user_id = User.user_id current_user,
                       ArticleHistory.event = ''CREATE'',
                       ArticleHistory.old_title = None, ArticleHistory.new_title = Some title',
                       ArticleHistory.old_content = None,
                       ArticleHistory.new_content = Some content'\<rparr>;
                    db2 = add_article_history db1 history_entry
                in commit_refresh_article e db2 (new_id e)))"

definition create_article ::
  "env \<Rightarrow> AsyncSession \<Rightarrow> User \<Rightarrow> string \<Rightarrow> string \<Rightarrow> upload list \<Rightarrow> outcome"
where
  "create_article e db current_user title' content' images =
     (case create_article_try e db current_user title' content' images of
        (Inl x, db') \<Rightarrow> (Inl (HTTPException 500 (Wrapped Error_creating_article x)), rollback db')
      | (Inr r, db') \<Rightarrow> (Inr r, db'))"

text \<open>
  \<open>update_article\<close>, lines 123 and 127-132: the fields set on the article that was
  fetched, and whether one of them was changed.
\<close>

definition update_article_fields ::
  "Article \<Rightarrow> string option \<Rightarrow> string option \<Rightarrow> Article \<times> bool"
where
  "update_article_fields article title' content' =
     (let changes_made = False;
          (article1, changes_made) =
            (case title' of
               None \<Rightarrow> (article, changes_made)
             | Some v \<Rightarrow>
                 if v \<noteq> Article.title article
                 then (article\<lparr>Article.title := v\<rparr>, True)
                 else (article, changes_made));
          (article2, changes_made) =
            (case content' of
               None \<Rightarrow> (article1, changes_made)
             | Some v \<Rightarrow>
                 if v \<noteq> Article.content article1
                 then (article1\<lparr>Article.content := v\<rparr>, True)
                 else (article1, changes_made))
      in (article2, changes_made))"

text \<open>
  \<open>update_article\<close>, lines 145-153: the history entry, from the title and the content
  the article had when it was fetched (lines 124-125) and the values of the request.
\<close>

definition update_history_entry ::
  "User \<Rightarrow> int \<Rightarrow> string \<Rightarrow> string \<Rightarrow> string option \<Rightarrow> string option \<Rightarrow> ArticleHistory"
where
  "update_history_entry current_user aid old_title' old_content' title' content' =
     \<lparr>ArticleHistory.article_id = aid,
      ArticleHistory.user_id = User.user_id current_user,
      ArticleHistory.event = ''UPDATE'',
      ArticleHistory.old_title =
        (if title' \<noteq> None \<and> title' \<noteq> Some old_title' then Some old_title' else None),
      ArticleHistory.new_title =
        (if title' \<noteq> None \<and> title' \<noteq> Some old_title' then title' else None),
      ArticleHistory.old_content =
        (if content' \<noteq> None \<and> content' \<noteq> Some old_content'
         then Some old_content' else None),
      ArticleHistory.new_content =
        (if content' \<noteq> None \<and> content' \<noteq> Some old_content' then content' else None)\<rparr>"

definition update_article_try ::
  "env \<Rightarrow> AsyncSession \<Rightarrow> User \<Rightarrow> int \<Rightarrow> string option \<Rightarrow> string option \<Rightarrow> upload list \<Rightarrow> outcome"
where
  "update_article_try e db current_user aid title' content' images =
     (case articles (pending db) aid of
        None \<Rightarrow> (Inl (HTTPException 404 (Msg Article_not_found)), db)
      | Some article \<Rightarrow>
          if Article.is_deleted article then (Inl (HTTPException 404 (Msg Article_not_found)), db)
          else if Article.author_id article \<noteq> User.user_id current_user \<and>
                  User.role_id current_user \<noteq> 2
          then (Inl (HTTPException 403 (Msg Access_denied)), db)
          else
            let old_title' = Article.title article;
                old_content' = Article.content article;
                (article2, changes_made) = update_article_fields article title' content';
                db1 = set_article db aid article2
            in (case (if images \<noteq> [] then article_images_loop aid images db1
                      else (None, db1)) of
                  (Some x, db2) \<Rightarrow> (Inl x, db2)
                | (None, db2) \<Rightarrow>
                    let changes_made = (if images \<noteq> [] then True else changes_made);
                        db3 =
                          (if changes_made then
                             add_article_history db2
                               (update_history_entry current_user aid old_title' old_content'
                                  title' content')
                           else db2)
                    in commit_refresh_article e db3 aid))"

definition update_article ::
  "env \<Rightarrow> AsyncSession \<Rightarrow> User \<Rightarrow> int \<Rightarrow> string option \<Rightarrow> string option \<Rightarrow> upload list \<Rightarrow> outcome"
where
  "update_article e db current_user aid title' content' images =
     (case update_article_try e db current_user aid title' content' images of
        (Inl x, db') \<Rightarrow> (Inl (HTTPException 500 (Wrapped Error_updating_article x)), rollback db')
      | (Inr r, db') \<Rightarrow> (Inr r, db'))"

definition delete_article_try :: "env \<Rightarrow> AsyncSession \<Rightarrow> User \<Rightarrow> int \<Rightarrow> outcome" where
  "delete_article_try e db current_user aid =
     (case articles (pending db) aid of
        None \<Rightarrow> (Inl (HTTPException 404 (Msg Article_not_found)), db)
      | Some article \<Rightarrow>
          if Article.is_deleted article then (Inl (HTTPException 404 (Msg Article_not_found)), db)
          else if Article.author_id article \<noteq> User.user_id current_user \<and>
                  User.role_id current_user \<noteq> 2
          then (Inl (HTTPException 403 (Msg Access_denied)), db)
          else
            let article1 = article\<lparr>Article.is_deleted := True,
                                    Article.deleted_at := Some (utcnow e)\<rparr>;
                history_entry =
                  \<lparr>ArticleHistory.article_id = aid,
                   ArticleHistory.user_id = User.user_id current_user,
                   ArticleHistory.event = ''DELETE'',
                   ArticleHistory.old_title = Some (Article.title article1),
                   ArticleHistory.new_title = None,
                   ArticleHistory.old_content = Some (Article.content article1),
                   ArticleHistory.new_content = None\<rparr>;
                db1 = add_article_history (set_article db aid article1) history_entry
            in (case commit e db1 of
                  Inl x \<Rightarrow> (Inl x, db1)
                | Inr db2 \<Rightarrow> (Inr (MessageResponse Article_deleted_ok), db2)))"

definition delete_article :: "env \<Rightarrow> AsyncSession \<Rightarrow> User \<Rightarrow> int \<Rightarrow> outcome" where
  "delete_article e db current_user aid =
     (case delete_article_try e db current_user aid of
        (Inl x, db') \<Rightarrow> (Inl (HTTPException 500 (Wrapped Error_deleting_article x)), rollback db')
      | (Inr r, db') \<Rightarrow> (Inr r, db'))"

definition restore_article_try :: "env \<Rightarrow> AsyncSession \<Rightarrow> User \<Rightarrow> int \<Rightarrow> outcome" where
  "restore_article_try e db current_user aid =
     (case articles (pending db) aid of
        None \<Rightarrow> (Inl (HTTPException 404 (Msg Article_not_found_or_expired)), db)
      | Some article \<Rightarrow>
          if \<not> restorable e (Article.is_deleted article) (Article.deleted_at article)
          then (Inl (HTTPException 404 (Msg Article_not_found_or_expired)), db)
          else if Article.author_id article \<noteq> User.user_id current_user \<and>
                  User.role_id current_user \<noteq> 2
          then (Inl (HTTPException 403 (Msg Access_denied)), db)
          else
            let article1 = article\<lparr>Article.is_deleted := False, Article.deleted_at := None\<rparr>;
                history_entry =
                  \<lparr>ArticleHistory.article_id = aid,
                   ArticleHistory.user_id = User.user_id current_user,
                   ArticleHistory.event = ''RESTORE'',
                   ArticleHistory.old_title = None,
                   ArticleHistory.new_title = Some (Article.title article1),
                   ArticleHistory.old_content = None,
                   ArticleHistory.new_content = Some (Article.content article1)\<rparr>;
                db1 = add_article_history (set_article db aid article1) history_entry
            in commit_refresh_article e db1 aid)"

definition restore_article :: "env \<Rightarrow> AsyncSession \<Rightarrow> User \<Rightarrow> int \<Rightarrow> outcome" where
  "restore_article e db current_user aid =
     (case restore_article_try e db current_user aid of
        (Inl x, db') \<Rightarrow>
          (Inl (HTTPException 500 (Wrapped Error_restoring_article x)), rollback db')
      | (Inr r, db') \<Rightarrow> (Inr r, db'))"

section \<open>Requests\<close>

text \<open>
  The lifecycle requests the two routers accept, and the store a request leaves
  behind: each request runs its handler in a fresh session on the store.
\<close>

datatype request =
    CreateTask string "string option" int "form_datetime option" TaskStatus TaskPriority
      "upload list"
  | UpdateTask int "string option" "string option" "int option" "form_datetime option"
      "TaskStatus option" "TaskPriority option" "upload list"
  | DeleteTask int
  | ReassignTask int int "string option"
  | RestoreTask int
  | CreateArticle string string "upload list"
  | UpdateArticle int "string option" "string option" "upload list"
  | DeleteArticle int
  | RestoreArticle int

fun dispatch :: "env \<Rightarrow> AsyncSession \<Rightarrow> User \<Rightarrow> request \<Rightarrow> outcome" where
  "dispatch e db u (CreateTask t d a dd s p imgs) = create_task e db u t d a dd s p imgs"
| "dispatch e db u (UpdateTask k t d a dd s p imgs) = update_task e db u k t d a dd s p imgs"
| "dispatch e db u (DeleteTask k) = delete_task e db u k"
| "dispatch e db u (ReassignTask k a c) = reassign_task e db u k a c"
| "dispatch e db u (RestoreTask k) = restore_task e db u k"
| "dispatch e db u (CreateArticle t c imgs) = create_article e db u t c imgs"
| "dispatch e db u (UpdateArticle k t c imgs) = update_article e db u k t c imgs"
| "dispatch e db u (DeleteArticle k) = delete_article e db u k"
| "dispatch e db u (RestoreArticle k) = restore_article e db u k"

definition serve :: "env \<Rightarrow> database \<Rightarrow> User \<Rightarrow> request \<Rightarrow> (exn + response) \<times> database" where
  "serve e d u r = (case dispatch e (begin_session d) u r of (res, db) \<Rightarrow> (res, committed db))"


section \<open>Properties of a store, and a sample store\<close>

text \<open>The soft-delete invariant: the flag is set exactly when the timestamp is.\<close>

definition soft_delete_inv :: "database \<Rightarrow> bool" where
  "soft_delete_inv d =
     ((\<forall>k t. tasks d k = Some t \<longrightarrow> (Task.is_deleted t \<longleftrightarrow> Task.deleted_at t \<noteq> None)) \<and>
      (\<forall>k a. articles d k = Some a \<longrightarrow>
         (Article.is_deleted a \<longleftrightarrow> Article.deleted_at a \<noteq> None)))"

text \<open>The stored names of a request's files, and the rows the loops add for them.\<close>

definition task_file_names :: "int \<Rightarrow> upload list \<Rightarrow> string list" where
  "task_file_names tid images = map (\<lambda>img. task_save_uploaded_file img tid) images"

definition article_image_rows :: "int \<Rightarrow> upload list \<Rightarrow> ArticleImage list" where
  "article_image_rows aid images =
     map (\<lambda>img. \<lparr>ArticleImage.article_id = aid,
                  ArticleImage.image_path = ''article_'' @ token img @ file_ext img\<rparr>) images"

text \<open>
  The history rows the handlers build: \<open>update_task\<close> (lines 171-176), \<open>create_task\<close>
  (lines 86-95), \<open>update_article\<close> (lines 145-153) and \<open>create_article\<close> (lines 81-87).
\<close>

definition article_updated ::
  "User \<Rightarrow> int \<Rightarrow> Article \<Rightarrow> string option \<Rightarrow> string option \<Rightarrow> ArticleHistory" where
  "article_updated u aid a title' content' =
     \<lparr>ArticleHistory.article_id = aid, ArticleHistory.user_id = User.user_id u,
      ArticleHistory.event = ''UPDATE'',
      ArticleHistory.old_title =
        (if title' \<noteq> None \<and> title' \<noteq> Some (Article.title a) then Some (Article.title a) else None),
      ArticleHistory.new_title =
        (if title' \<noteq> None \<and> title' \<noteq> Some (Article.title a) then title' else None),
      ArticleHistory.old_content =
        (if content' \<noteq> None \<and> content' \<noteq> Some (Article.content a)
         then Some (Article.content a) else None),
      ArticleHistory.new_content =
        (if content' \<noteq> None \<and> content' \<noteq> Some (Article.content a) then content' else None)\<rparr>"

definition task_updated :: "User \<Rightarrow> int \<Rightarrow> (string \<times> json) list \<Rightarrow> TaskHistory" where
  "task_updated u tid c =
     \<lparr>TaskHistory.task_id = tid, TaskHistory.user_id = User.user_id u,
      TaskHistory.event = ''TASK_UPDATED'', TaskHistory.comment = None,
      TaskHistory.changes = Some c\<rparr>"

definition task_created ::
  "User \<Rightarrow> int \<Rightarrow> string \<Rightarrow> string option \<Rightarrow> int \<Rightarrow> timestamp option \<Rightarrow> TaskStatus \<Rightarrow>
   TaskPriority \<Rightarrow> TaskHistory" where
  "task_created u tid title' description' assignee_id' due_utc status' priority' =
     \<lparr>TaskHistory.task_id = tid, TaskHistory.user_id = User.user_id u,
      TaskHistory.event = ''TASK_CREATED'', TaskHistory.comment = None,
      TaskHistory.changes = Some
        [(''title'', JStr title'),
         (''description'', (case description' of None \<Rightarrow> JNull | Some v \<Rightarrow> JStr v)),
         (''assignee_id'', JInt assignee_id'),
         (''due_date'', (case due_utc of None \<Rightarrow> JNull
                         | Some v \<Rightarrow> JIso \<lparr>wall = v, utcoffset = None\<rparr>)),
         (''author_id'', JInt (User.user_id u)),
         (''status'', JStatus status'),
         (''priority'', JPriority priority'),
         (''image_paths'', JList [])]\<rparr>"

definition article_created :: "User \<Rightarrow> int \<Rightarrow> string \<Rightarrow> string \<Rightarrow> ArticleHistory" where
  "article_created u aid title' content' =
     \<lparr>ArticleHistory.article_id = aid, ArticleHistory.user_id = User.user_id u,
      ArticleHistory.event = ''CREATE'', ArticleHistory.old_title = None,
      ArticleHistory.new_title = Some title', ArticleHistory.old_content = None,
      ArticleHistory.new_content = Some content'\<rparr>"

definition alice :: User where
  "alice = \<lparr>User.user_id = 1, User.role_id = 1, User.is_deleted = False\<rparr>"

definition bob :: User where
  "bob = \<lparr>User.user_id = 3, User.role_id = 1, User.is_deleted = False\<rparr>"

definition sample_task :: Task where
  "sample_task =
     \<lparr>Task.title = ''Fix pump'', Task.description = Some ''Pump 3 leaks'',
      Task.status = ACTIVE, Task.priority = MEDIUM, Task.due_date = None,
      Task.author_id = 1, Task.assignee_id = 3, Task.image_paths = Some [],
      Task.is_deleted = False, Task.deleted_at = None\<rparr>"

definition sample_article :: Article where
  "sample_article =
     \<lparr>Article.title = ''Pump manual'', Article.content = ''Close the valve first.'',
      Article.author_id = 1, Article.is_deleted = False, Article.deleted_at = None\<rparr>"

text \<open>
  Alice has written task 10 and article 20, both active, and task 12 and article 21,
  which were deleted on day 92. Bob is another user without the elevated role.
\<close>

definition sample_store :: database where
  "sample_store =
     \<lparr>users = [1 \<mapsto> alice, 3 \<mapsto> bob],
      tasks = [10 \<mapsto> sample_task,
               12 \<mapsto> sample_task\<lparr>Task.is_deleted := True,
                                     Task.deleted_at := Some (timedelta_days 92)\<rparr>],
      task_history = [],
      articles = [20 \<mapsto> sample_article,
                  21 \<mapsto> sample_article\<lparr>Article.is_deleted := True,
                                           Article.deleted_at := Some (timedelta_days 92)\<rparr>],
      article_images = [],
      article_history = []\<rparr>"

text \<open>Day 100: the deletions of day 92 are eight days old.\<close>

definition sample_env :: env where
  "sample_env =
     \<lparr>utcnow = timedelta_days 100, local_utcoffset = 0, new_id = 30, commit_fails = False,
      refresh_fails = False\<rparr>"

definition sample_png :: upload where
  "sample_png = \<lparr>file_ext = ''.png'', token = ''9f3a61c2''\<rparr>"

section \<open>The session operations and the loops\<close>

lemmas sample_defs = sample_store_def sample_env_def sample_task_def sample_article_def
  alice_def bob_def sample_png_def

lemmas handler_defs = serve_def begin_session_def commit_def rollback_def set_task_def
  set_article_def add_task_history_def add_article_history_def add_article_image_def
  verify_assignee_def ADMIN_ROLE_ID_def restorable_def timedelta_days_def
  refresh_task_def refresh_article_def commit_refresh_task_def commit_refresh_article_def
  update_article_fields_def update_history_entry_def title_description_def

lemma committed_session_ops [simp]:
  "committed (set_task db k t) = committed db"
  "committed (set_article db k a) = committed db"
  "committed (add_task_history db h) = committed db"
  "committed (add_article_history db ah) = committed db"
  "committed (add_article_image db i) = committed db"
  "committed (rollback db) = committed db"
  by (simp_all add: set_task_def set_article_def add_task_history_def add_article_history_def
        add_article_image_def rollback_def)

lemma task_images_loop_eq:
  "task_images_loop u tid images paths db =
     (paths @ task_file_names tid images,
      db\<lparr>pending := (pending db)\<lparr>task_history :=
            task_history (pending db) @ map (image_added u tid) (task_file_names tid images)\<rparr>\<rparr>)"
  by (induction images arbitrary: paths db)
     (simp_all add: task_file_names_def add_task_history_def Let_def)

lemma article_images_loop_committed:
  "committed (snd (article_images_loop aid images db)) = committed db"
  by (induction images arbitrary: db) (simp_all split: sum.splits)

lemma article_images_loop_committed':
  "article_images_loop aid images db = (r, db') \<Longrightarrow> committed db' = committed db"
  using article_images_loop_committed [of aid images db] by simp

lemma article_images_loop_eq:
  "\<forall>img \<in> set images. file_ext img \<in> allowed_extensions \<Longrightarrow>
   article_images_loop aid images db =
     (None, db\<lparr>pending := (pending db)\<lparr>article_images :=
                  article_images (pending db) @ article_image_rows aid images\<rparr>\<rparr>)"
  by (induction images arbitrary: db)
     (simp_all add: article_image_rows_def add_article_image_def article_save_uploaded_file_def)

lemma env_without_refresh [simp]:
  "to_utc_naive (e\<lparr>refresh_fails := b\<rparr>) = to_utc_naive e"
  "update_task_fields (e\<lparr>refresh_fails := b\<rparr>) = update_task_fields e"
  "restorable (e\<lparr>refresh_fails := b\<rparr>) = restorable e"
proof -
  show 1: "to_utc_naive (e\<lparr>refresh_fails := b\<rparr>) = to_utc_naive e"
    by (simp add: fun_eq_iff to_utc_naive_def split: option.splits)
  show "update_task_fields (e\<lparr>refresh_fails := b\<rparr>) = update_task_fields e"
    unfolding fun_eq_iff update_task_fields_def 1 by simp
  show "restorable (e\<lparr>refresh_fails := b\<rparr>) = restorable e"
    by (simp add: fun_eq_iff restorable_def split: option.splits)
qed

subsection \<open>What a request that is committed leaves behind\<close>

lemma update_article_success:
  assumes found: "articles d aid = Some a"
    and active: "\<not> Article.is_deleted a"
    and rights: "Article.author_id a = User.user_id u \<or> User.role_id u = 2"
    and files: "\<forall>img \<in> set images. file_ext img \<in> allowed_extensions"
    and commit_ok: "\<not> commit_fails e"
  shows "serve e d u (UpdateArticle aid title' content' images) =
     ((if refresh_fails e
       then Inl (HTTPException 500 (Wrapped Error_updating_article DBError))
       else Inr (ArticleResponse aid
             (a\<lparr>Article.title := (case title' of None \<Rightarrow> Article.title a | Some v \<Rightarrow> v),
                Article.content := (case content' of None \<Rightarrow> Article.content a | Some v \<Rightarrow> v)\<rparr>))),
      d\<lparr>articles := (articles d)(aid \<mapsto>
             a\<lparr>Article.title := (case title' of None \<Rightarrow> Article.title a | Some v \<Rightarrow> v),
               Article.content := (case content' of None \<Rightarrow> Article.content a | Some v \<Rightarrow> v)\<rparr>),
        article_images := article_images d @ article_image_rows aid images,
        article_history := article_history d @
          (if (title' \<noteq> None \<and> title' \<noteq> Some (Article.title a)) \<or>
              (content' \<noteq> None \<and> content' \<noteq> Some (Article.content a)) \<or> images \<noteq> []
           then [article_updated u aid a title' content'] else [])\<rparr>)"
proof -
  have loop: "\<And>db. article_images_loop aid images db =
     (None, db\<lparr>pending := (pending db)\<lparr>article_images :=
                  article_images (pending db) @ article_image_rows aid images\<rparr>\<rparr>)"
    using files by (rule article_images_loop_eq)
  show ?thesis
    using found active rights commit_ok
    by (cases title'; cases content'; cases "images = []")
       (auto simp: serve_def begin_session_def update_article_def update_article_try_def
          commit_def rollback_def refresh_article_def commit_refresh_article_def set_article_def
          add_article_history_def Let_def loop article_image_rows_def article_updated_def
          update_article_fields_def update_history_entry_def)
qed

lemma update_task_changes_keys:
  "map_of (update_task_changes t ti de a dd s p imgs) ''title'' = map_option JStr ti"
  "map_of (update_task_changes t ti de a dd s p imgs) ''description'' = map_option JStr de"
  "map_of (update_task_changes t ti de a dd s p imgs) ''assignee_id'' = map_option JInt a"
  "map_of (update_task_changes t ti de a dd s p imgs) ''due_date'' = map_option JIso dd"
  "map_of (update_task_changes t ti de a dd s p imgs) ''status'' = map_option JStatus s"
  "map_of (update_task_changes t ti de a dd s p imgs) ''priority'' = map_option JPriority p"
  by (simp_all add: update_task_changes_def split: option.splits)

lemma update_task_changes_empty:
  "update_task_changes t ti de a dd s p imgs = [] \<longleftrightarrow>
     ti = None \<and> de = None \<and> a = None \<and> dd = None \<and> s = None \<and> p = None \<and> imgs = []"
  by (simp add: update_task_changes_def split: option.splits)

lemma update_task_fields_ok:
  assumes "\<forall>x. a = Some x \<longrightarrow> (\<exists>usr. users (pending db) x = Some usr \<and> \<not> User.is_deleted usr)"
  shows "\<exists>t'. update_task_fields e db t ti de a dd s p = (Inr t', t') \<and>
     Task.title t' = (case ti of None \<Rightarrow> Task.title t | Some v \<Rightarrow> v) \<and>
     Task.description t' = (case de of None \<Rightarrow> Task.description t | Some v \<Rightarrow> Some v) \<and>
     Task.assignee_id t' = (case a of None \<Rightarrow> Task.assignee_id t | Some v \<Rightarrow> v) \<and>
     Task.due_date t' = (case dd of None \<Rightarrow> Task.due_date t | Some v \<Rightarrow> Some (to_utc_naive e v)) \<and>
     Task.status t' = (case s of None \<Rightarrow> Task.status t | Some v \<Rightarrow> v) \<and>
     Task.priority t' = (case p of None \<Rightarrow> Task.priority t | Some v \<Rightarrow> v) \<and>
     Task.author_id t' = Task.author_id t \<and>
     Task.image_paths t' = Task.image_paths t \<and>
     Task.is_deleted t' = Task.is_deleted t \<and>
     Task.deleted_at t' = Task.deleted_at t"
  using assms
  by (auto simp: update_task_fields_def verify_assignee_def Let_def split: option.splits)

lemma update_task_success:
  assumes found: "tasks d tid = Some t"
    and commit_ok: "\<not> commit_fails e"
    and assignee_ok: "\<forall>x. a = Some x \<longrightarrow> (\<exists>usr. users d x = Some usr \<and> \<not> User.is_deleted usr)"
  shows "\<exists>t' tm. serve e d u (UpdateTask tid ti de a dd s p imgs) =
       ((if refresh_fails e then Inl DBError else Inr (TaskResponse tid t')),
        d\<lparr>tasks := (tasks d)(tid \<mapsto> t'),
          task_history := task_history d @ map (image_added u tid) (task_file_names tid imgs) @
            (if update_task_changes tm ti de a dd s p imgs = [] then []
             else [task_updated u tid (update_task_changes tm ti de a dd s p imgs)])\<rparr>) \<and>
     Task.title t' = (case ti of None \<Rightarrow> Task.title t | Some v \<Rightarrow> v) \<and>
     Task.description t' = (case de of None \<Rightarrow> Task.description t | Some v \<Rightarrow> Some v) \<and>
     Task.assignee_id t' = (case a of None \<Rightarrow> Task.assignee_id t | Some v \<Rightarrow> v) \<and>
     Task.due_date t' = (case dd of None \<Rightarrow> Task.due_date t | Some v \<Rightarrow> Some (to_utc_naive e v)) \<and>
     Task.status t' = (case s of None \<Rightarrow> Task.status t | Some v \<Rightarrow> v) \<and>
     Task.priority t' = (case p of None \<Rightarrow> Task.priority t | Some v \<Rightarrow> v) \<and>
     Task.author_id t' = Task.author_id t \<and>
     Task.image_paths t' =
       (if imgs = [] then Task.image_paths t
        else flushed_image_paths (Task.image_paths t)
               ((case Task.image_paths t of None \<Rightarrow> [] | Some ps \<Rightarrow> ps) @
                task_file_names tid imgs)) \<and>
     Task.is_deleted t' = Task.is_deleted t \<and>
     Task.deleted_at t' = Task.deleted_at t"
proof -
  let ?db = "begin_session d"
  have "\<forall>x. a = Some x \<longrightarrow> (\<exists>usr. users (pending ?db) x = Some usr \<and> \<not> User.is_deleted usr)"
    using assignee_ok by (simp add: begin_session_def)
  from update_task_fields_ok [OF this, of e t ti de dd s p]
  obtain t6 where f: "update_task_fields e ?db t ti de a dd s p = (Inr t6, t6)"
    and props: "Task.title t6 = (case ti of None \<Rightarrow> Task.title t | Some v \<Rightarrow> v)"
      "Task.description t6 = (case de of None \<Rightarrow> Task.description t | Some v \<Rightarrow> Some v)"
      "Task.assignee_id t6 = (case a of None \<Rightarrow> Task.assignee_id t | Some v \<Rightarrow> v)"
      "Task.due_date t6 = (case dd of None \<Rightarrow> Task.due_date t | Some v \<Rightarrow> Some (to_utc_naive e v))"
      "Task.status t6 = (case s of None \<Rightarrow> Task.status t | Some v \<Rightarrow> v)"
      "Task.priority t6 = (case p of None \<Rightarrow> Task.priority t | Some v \<Rightarrow> v)"
      "Task.author_id t6 = Task.author_id t"
      "Task.image_paths t6 = Task.image_paths t"
      "Task.is_deleted t6 = Task.is_deleted t"
      "Task.deleted_at t6 = Task.deleted_at t"
    by blast
  have look: "tasks (pending ?db) tid = Some t"
    using found by (simp add: begin_session_def)
  show ?thesis
  proof (cases "imgs = []")
    case True
    have "serve e d u (UpdateTask tid ti de a dd s p imgs) =
       ((if refresh_fails e then Inl DBError else Inr (TaskResponse tid t6)),
        d\<lparr>tasks := (tasks d)(tid \<mapsto> t6),
          task_history := task_history d @ map (image_added u tid) (task_file_names tid imgs) @
            (if update_task_changes t6 ti de a dd s p imgs = [] then []
             else [task_updated u tid (update_task_changes t6 ti de a dd s p imgs)])\<rparr>)"
      using True commit_ok look f
      by (simp add: serve_def update_task_def commit_def refresh_task_def commit_refresh_task_def Let_def
            task_file_names_def task_updated_def set_task_def add_task_history_def
            begin_session_def)
    with props True show ?thesis by auto
  next
    case False
    let ?built = "(case Task.image_paths t of None \<Rightarrow> [] | Some ps \<Rightarrow> ps) @
                  task_file_names tid imgs"
    let ?tm = "t6\<lparr>Task.image_paths := Some ?built\<rparr>"
    let ?t7 = "t6\<lparr>Task.image_paths := flushed_image_paths (Task.image_paths t) ?built\<rparr>"
    have "serve e d u (UpdateTask tid ti de a dd s p imgs) =
       ((if refresh_fails e then Inl DBError else Inr (TaskResponse tid ?t7)),
        d\<lparr>tasks := (tasks d)(tid \<mapsto> ?t7),
          task_history := task_history d @ map (image_added u tid) (task_file_names tid imgs) @
            (if update_task_changes ?tm ti de a dd s p imgs = [] then []
             else [task_updated u tid (update_task_changes ?tm ti de a dd s p imgs)])\<rparr>)"
      using False commit_ok look f props(8)
      by (simp add: serve_def update_task_def commit_def refresh_task_def commit_refresh_task_def Let_def
            task_images_loop_eq task_updated_def set_task_def add_task_history_def
            begin_session_def)
    moreover have "Task.image_paths ?t7 = flushed_image_paths (Task.image_paths t) ?built"
      by simp
    ultimately show ?thesis using props False
      by (intro exI [of _ ?t7] exI [of _ ?tm]) simp
  qed
qed

lemma create_task_success:
  assumes assignee_ok: "users d a = Some usr" "\<not> User.is_deleted usr"
    and fresh: "tasks d (new_id e) = None"
    and commit_ok: "\<not> commit_fails e"
  shows "serve e d u (CreateTask ti de a dd s p imgs) =
     ((if refresh_fails e
       then Inl (HTTPException 500 (Wrapped Error_creating_task DBError))
       else Inr (TaskResponse (new_id e)
        \<lparr>Task.title = ti, Task.description = de, Task.status = s, Task.priority = p,
         Task.due_date = map_option (to_utc_naive e) dd, Task.author_id = User.user_id u,
         Task.assignee_id = a, Task.image_paths = Some (task_file_names (new_id e) imgs),
         Task.is_deleted = False, Task.deleted_at = None\<rparr>)),
      d\<lparr>tasks := (tasks d)(new_id e \<mapsto>
          \<lparr>Task.title = ti, Task.description = de, Task.status = s, Task.priority = p,
           Task.due_date = map_option (to_utc_naive e) dd, Task.author_id = User.user_id u,
           Task.assignee_id = a, Task.image_paths = Some (task_file_names (new_id e) imgs),
           Task.is_deleted = False, Task.deleted_at = None\<rparr>),
        task_history := task_history d @
          map (image_added u (new_id e)) (task_file_names (new_id e) imgs) @
          [task_created u (new_id e) ti de a (map_option (to_utc_naive e) dd) s p]\<rparr>)"
  using assms
  by (cases "imgs = []")
     (simp_all add: serve_def begin_session_def create_task_def create_task_try_def
        verify_assignee_def commit_def rollback_def refresh_task_def commit_refresh_task_def
        set_task_def
        add_task_history_def Let_def
        task_images_loop_eq task_created_def task_file_names_def)

lemma create_article_success:
  assumes fresh: "articles d (new_id e) = None"
    and files: "\<forall>img \<in> set images. file_ext img \<in> allowed_extensions"
    and commit_ok: "\<not> commit_fails e"
  shows "serve e d u (CreateArticle title' content' images) =
     ((if refresh_fails e
       then Inl (HTTPException 500 (Wrapped Error_creating_article DBError))
       else Inr (ArticleResponse (new_id e)
        \<lparr>Article.title = title', Article.content = content',
         Article.author_id = User.user_id u, Article.is_deleted = False,
         Article.deleted_at = None\<rparr>)),
      d\<lparr>articles := (articles d)(new_id e \<mapsto>
          \<lparr>Article.title = title', Article.content = content',
           Article.author_id = User.user_id u, Article.is_deleted = False,
           Article.deleted_at = None\<rparr>),
        article_images := article_images d @ article_image_rows (new_id e) images,
        article_history := article_history d @ [article_created u (new_id e) title' content']\<rparr>)"
proof -
  have loop: "\<And>db. article_images_loop (new_id e) images db =
     (None, db\<lparr>pending := (pending db)\<lparr>article_images :=
                  article_images (pending db) @ article_image_rows (new_id e) images\<rparr>\<rparr>)"
    using files by (rule article_images_loop_eq)
  show ?thesis
    using fresh commit_ok
    by (cases "images = []")
       (simp_all add: serve_def begin_session_def create_article_def create_article_try_def
          commit_def rollback_def refresh_article_def commit_refresh_article_def set_article_def
          add_article_history_def Let_def loop
          article_image_rows_def article_created_def)
qed

subsection \<open>What a request that fails leaves behind\<close>

lemma pending_tables:
  "tasks (pending (add_task_history db h)) = tasks (pending db)"
  "articles (pending (add_task_history db h)) = articles (pending db)"
  "tasks (pending (add_article_history db ah)) = tasks (pending db)"
  "articles (pending (add_article_history db ah)) = articles (pending db)"
  "tasks (pending (add_article_image db i)) = tasks (pending db)"
  "articles (pending (add_article_image db i)) = articles (pending db)"
  "tasks (pending (set_task db k t)) = (tasks (pending db))(k \<mapsto> t)"
  "articles (pending (set_task db k t)) = articles (pending db)"
  "tasks (pending (set_article db k a)) = tasks (pending db)"
  "articles (pending (set_article db k a)) = (articles (pending db))(k \<mapsto> a)"
  by (simp_all add: add_task_history_def add_article_history_def add_article_image_def
        set_task_def set_article_def)

lemma article_images_loop_tables:
  "tasks (pending (snd (article_images_loop aid images db))) = tasks (pending db) \<and>
   articles (pending (snd (article_images_loop aid images db))) = articles (pending db)"
  by (induction images arbitrary: db) (simp_all add: pending_tables split: sum.splits)

lemma task_images_loop_tables:
  "tasks (pending (snd (task_images_loop u tid images paths db))) = tasks (pending db) \<and>
   articles (pending (snd (task_images_loop u tid images paths db))) = articles (pending db) \<and>
   committed (snd (task_images_loop u tid images paths db)) = committed db"
  by (simp add: task_images_loop_eq)

lemma commit_refresh_task_eval:
  "tasks (pending db) k \<noteq> None \<Longrightarrow>
   commit_refresh_task e db k =
     (if commit_fails e then (Inl DBError, db)
      else ((if refresh_fails e then Inl DBError
             else Inr (TaskResponse k (the (tasks (pending db) k)))),
            db\<lparr>committed := pending db\<rparr>))"
  by (auto simp: commit_refresh_task_def commit_def refresh_task_def)

lemma commit_refresh_article_eval:
  "articles (pending db) k \<noteq> None \<Longrightarrow>
   commit_refresh_article e db k =
     (if commit_fails e then (Inl DBError, db)
      else ((if refresh_fails e then Inl DBError
             else Inr (ArticleResponse k (the (articles (pending db) k)))),
            db\<lparr>committed := pending db\<rparr>))"
  by (auto simp: commit_refresh_article_def commit_def refresh_article_def)

lemmas tail_simps = pending_tables article_images_loop_tables task_images_loop_tables
  article_images_loop_committed commit_refresh_task_eval commit_refresh_article_eval











subsection \<open>The soft-delete invariant, handler by handler\<close>

lemma update_task_fields_flags:
  "update_task_fields e db t ti de a dd s p = (r, t') \<Longrightarrow>
   Task.is_deleted t' = Task.is_deleted t \<and> Task.deleted_at t' = Task.deleted_at t \<and>
   (\<forall>t6. r = Inr t6 \<longrightarrow> t6 = t')"
  by (auto simp: update_task_fields_def Let_def split: option.splits sum.splits)

lemma update_article_fields_flags:
  "Article.is_deleted (fst (update_article_fields a t c)) = Article.is_deleted a \<and>
   Article.deleted_at (fst (update_article_fields a t c)) = Article.deleted_at a \<and>
   Article.author_id (fst (update_article_fields a t c)) = Article.author_id a"
  by (simp add: update_article_fields_def Let_def split: option.splits)

lemma delete_task_inv:
  "soft_delete_inv d \<Longrightarrow> soft_delete_inv (snd (serve e d u (DeleteTask k)))"
  by (auto simp: serve_def begin_session_def delete_task_def delete_task_try_def commit_def
        rollback_def Let_def soft_delete_inv_def pending_tables
        split: option.splits if_splits)

lemma restore_task_inv:
  "soft_delete_inv d \<Longrightarrow> soft_delete_inv (snd (serve e d u (RestoreTask k)))"
  by (auto simp: serve_def begin_session_def restore_task_def restore_task_try_def
        rollback_def Let_def soft_delete_inv_def tail_simps
        split: option.splits if_splits)

lemma reassign_task_inv:
  "soft_delete_inv d \<Longrightarrow> soft_delete_inv (snd (serve e d u (ReassignTask k a c)))"
  by (auto simp: serve_def begin_session_def reassign_task_def
        Let_def soft_delete_inv_def tail_simps
        split: option.splits if_splits sum.splits)

lemma delete_article_inv:
  "soft_delete_inv d \<Longrightarrow> soft_delete_inv (snd (serve e d u (DeleteArticle k)))"
  by (auto simp: serve_def begin_session_def delete_article_def delete_article_try_def
        commit_def rollback_def Let_def soft_delete_inv_def pending_tables
        split: option.splits if_splits)

lemma restore_article_inv:
  "soft_delete_inv d \<Longrightarrow> soft_delete_inv (snd (serve e d u (RestoreArticle k)))"
  by (auto simp: serve_def begin_session_def restore_article_def restore_article_try_def
        rollback_def Let_def soft_delete_inv_def tail_simps
        split: option.splits if_splits)

lemma create_task_inv:
  "soft_delete_inv d \<Longrightarrow> soft_delete_inv (snd (serve e d u (CreateTask ti de a dd s p imgs)))"
  by (auto simp: serve_def begin_session_def create_task_def create_task_try_def
        rollback_def Let_def soft_delete_inv_def case_prod_beta tail_simps
        split: option.splits if_splits sum.splits)

lemma update_task_inv:
  assumes inv: "soft_delete_inv d"
  shows "soft_delete_inv (snd (serve e d u (UpdateTask k ti de a dd s p imgs)))"
proof (cases "tasks d k")
  case None
  with inv show ?thesis
    by (simp add: serve_def begin_session_def update_task_def)
next
  case (Some t)
  obtain r t' where f: "update_task_fields e (begin_session d) t ti de a dd s p = (r, t')"
    by (cases "update_task_fields e (begin_session d) t ti de a dd s p")
  from update_task_fields_flags [OF f]
  have flags: "Task.is_deleted t' = Task.is_deleted t" "Task.deleted_at t' = Task.deleted_at t"
    and same: "\<And>t6. r = Inr t6 \<Longrightarrow> t6 = t'"
    by simp_all
  from inv Some have agree: "Task.is_deleted t \<longleftrightarrow> Task.deleted_at t \<noteq> None"
    by (simp add: soft_delete_inv_def)
  show ?thesis
  proof (cases r)
    case (Inl x)
    with inv Some f show ?thesis
      by (simp add: serve_def begin_session_def update_task_def)
  next
    case (Inr t6)
    with same have "t6 = t'" by simp
    with inv Some f Inr flags agree show ?thesis
      by (auto simp: serve_def begin_session_def update_task_def Let_def
            soft_delete_inv_def case_prod_beta tail_simps
            split: if_splits)
  qed
qed

lemma create_article_inv:
  "soft_delete_inv d \<Longrightarrow> soft_delete_inv (snd (serve e d u (CreateArticle ti c imgs)))"
  by (auto simp: serve_def begin_session_def create_article_def create_article_try_def
        rollback_def Let_def soft_delete_inv_def case_prod_beta tail_simps
        split: if_splits option.splits)

lemma update_article_inv:
  assumes inv: "soft_delete_inv d"
  shows "soft_delete_inv (snd (serve e d u (UpdateArticle k ti c imgs)))"
proof (cases "articles d k")
  case None
  with inv show ?thesis
    by (simp add: serve_def begin_session_def update_article_def update_article_try_def
          rollback_def)
next
  case (Some a)
  from inv Some have agree: "Article.is_deleted a \<longleftrightarrow> Article.deleted_at a \<noteq> None"
    by (simp add: soft_delete_inv_def)
  from inv Some agree show ?thesis
    by (auto simp: serve_def begin_session_def update_article_def update_article_try_def
          rollback_def Let_def soft_delete_inv_def case_prod_beta tail_simps
          update_article_fields_flags
          split: if_splits option.splits)
qed

subsection \<open>Task updates: deleted tasks, and tasks that already have images\<close>

text \<open>
  \<open>update_task\<close> selects by key alone, so the update of a soft-deleted task commits like
  any other: the fields are set, the task stays deleted, and a TASK_UPDATED record
  follows the IMAGE_ADDED records of the request.
\<close>

lemma update_task_on_deleted_task:
  assumes found: "tasks d tid = Some t" and deleted: "Task.is_deleted t"
    and commit_ok: "\<not> commit_fails e"
    and assignee_ok:
      "\<forall>x. upd_assignee = Some x \<longrightarrow> (\<exists>usr. users d x = Some usr \<and> \<not> User.is_deleted usr)"
    and supplied: "upd_title \<noteq> None \<or> upd_description \<noteq> None \<or> upd_assignee \<noteq> None \<or>
      upd_due \<noteq> None \<or> upd_status \<noteq> None \<or> upd_priority \<noteq> None \<or> images \<noteq> []"
  shows "\<exists>t' h. serve e d u (UpdateTask tid upd_title upd_description upd_assignee upd_due
                  upd_status upd_priority images) =
        ((if refresh_fails e then Inl DBError else Inr (TaskResponse tid t')),
         d\<lparr>tasks := (tasks d)(tid \<mapsto> t'),
           task_history := task_history d @
             map (image_added u tid) (task_file_names tid images) @ [h]\<rparr>) \<and>
        TaskHistory.event h = ''TASK_UPDATED'' \<and> TaskHistory.task_id h = tid \<and>
        Task.is_deleted t' \<and> Task.deleted_at t' = Task.deleted_at t \<and>
        Task.title t' = (case upd_title of None \<Rightarrow> Task.title t | Some v \<Rightarrow> v) \<and>
        Task.description t' =
          (case upd_description of None \<Rightarrow> Task.description t | Some v \<Rightarrow> Some v) \<and>
        Task.assignee_id t' = (case upd_assignee of None \<Rightarrow> Task.assignee_id t | Some v \<Rightarrow> v) \<and>
        Task.due_date t' =
          (case upd_due of None \<Rightarrow> Task.due_date t | Some v \<Rightarrow> Some (to_utc_naive e v)) \<and>
        Task.status t' = (case upd_status of None \<Rightarrow> Task.status t | Some v \<Rightarrow> v) \<and>
        Task.priority t' = (case upd_priority of None \<Rightarrow> Task.priority t | Some v \<Rightarrow> v)"
proof -
  from update_task_success [OF found commit_ok assignee_ok,
      of u upd_title upd_description upd_due upd_status upd_priority images]
  obtain t' tm where s: "serve e d u (UpdateTask tid upd_title upd_description upd_assignee
                  upd_due upd_status upd_priority images) =
       ((if refresh_fails e then Inl DBError else Inr (TaskResponse tid t')),
        d\<lparr>tasks := (tasks d)(tid \<mapsto> t'),
          task_history := task_history d @ map (image_added u tid) (task_file_names tid images) @
            (if update_task_changes tm upd_title upd_description upd_assignee upd_due
                  upd_status upd_priority images = [] then []
             else [task_updated u tid
                     (update_task_changes tm upd_title upd_description upd_assignee upd_due
                        upd_status upd_priority images)])\<rparr>)"
    and p: "Task.title t' = (case upd_title of None \<Rightarrow> Task.title t | Some v \<Rightarrow> v)"
      "Task.description t' =
          (case upd_description of None \<Rightarrow> Task.description t | Some v \<Rightarrow> Some v)"
      "Task.assignee_id t' = (case upd_assignee of None \<Rightarrow> Task.assignee_id t | Some v \<Rightarrow> v)"
      "Task.due_date t' =
          (case upd_due of None \<Rightarrow> Task.due_date t | Some v \<Rightarrow> Some (to_utc_naive e v))"
      "Task.status t' = (case upd_status of None \<Rightarrow> Task.status t | Some v \<Rightarrow> v)"
      "Task.priority t' = (case upd_priority of None \<Rightarrow> Task.priority t | Some v \<Rightarrow> v)"
      "Task.is_deleted t' = Task.is_deleted t"
      "Task.deleted_at t' = Task.deleted_at t"
    by blast
  have ne: "update_task_changes tm upd_title upd_description upd_assignee upd_due
                  upd_status upd_priority images \<noteq> []"
    using supplied by (simp add: update_task_changes_empty)
  show ?thesis
    apply (rule exI [of _ t'])
    apply (rule exI [of _ "task_updated u tid
        (update_task_changes tm upd_title upd_description upd_assignee upd_due
           upd_status upd_priority images)"])
    using s p ne deleted by (simp add: task_updated_def)
qed

text \<open>
  A task that already has images: the loaded list is appended to in place and assigned
  back, the column is not written, and the row keeps the list it had. The new name is
  in the history only. Here task 10 has one image when Alice attaches another.
\<close>

lemma update_task_keeps_loaded_image_list:
  "tasks (snd (serve sample_env
       (sample_store\<lparr>tasks := (tasks sample_store)
          (10 \<mapsto> sample_task\<lparr>Task.image_paths := Some [''task_10_01.png'']\<rparr>)\<rparr>)
       alice (UpdateTask 10 None None None None None None [sample_png]))) 10 =
     Some (sample_task\<lparr>Task.image_paths := Some [''task_10_01.png'']\<rparr>) \<and>
   map TaskHistory.event (task_history (snd (serve sample_env
       (sample_store\<lparr>tasks := (tasks sample_store)
          (10 \<mapsto> sample_task\<lparr>Task.image_paths := Some [''task_10_01.png'']\<rparr>)\<rparr>)
       alice (UpdateTask 10 None None None None None None [sample_png])))) =
     [''IMAGE_ADDED'', ''TASK_UPDATED'']"
  by (simp add: handler_defs sample_defs update_task_def update_task_fields_def
        update_task_changes_def flushed_image_paths_def image_added_def Let_def)

section \<open>The claims\<close>

text \<open>
  C1. An update by a user who is neither the author nor holds the elevated role is to
  fail with Forbidden and leave the entity unchanged. \<open>update_task\<close> has no such check
  (\<open>delete_task\<close>, \<open>reassign_task\<close> and \<open>restore_task\<close> have it): Bob, who did not write
  task 10 and is no administrator, renames it. \<open>update_article\<close> has the check and
  leaves the article unchanged, but the 403 it raises inside its \<open>try\<close> is caught by
  \<open>except Exception\<close> and answered as a 500.
\<close>

theorem update_task_ignores_ownership:
  "tasks sample_store 10 = Some sample_task \<and>
   Task.author_id sample_task \<noteq> User.user_id bob \<and> User.role_id bob \<noteq> ADMIN_ROLE_ID \<and>
   serve sample_env sample_store bob
     (UpdateTask 10 (Some ''Taken over'') None None None None None []) =
     (Inr (TaskResponse 10 (sample_task\<lparr>Task.title := ''Taken over''\<rparr>)),
      sample_store\<lparr>tasks := (tasks sample_store)(10 \<mapsto> sample_task\<lparr>Task.title := ''Taken over''\<rparr>),
        task_history :=
          [\<lparr>TaskHistory.task_id = 10, TaskHistory.user_id = 3,
            TaskHistory.event = ''TASK_UPDATED'', TaskHistory.comment = None,
            TaskHistory.changes = Some [(''title'', JStr ''Taken over'')]\<rparr>]\<rparr>) \<and>
   articles sample_store 20 = Some sample_article \<and>
   Article.author_id sample_article \<noteq> User.user_id bob \<and>
   serve sample_env sample_store bob (UpdateArticle 20 (Some ''Taken over'') None []) =
     (Inl (HTTPException 500
        (Wrapped Error_updating_article (HTTPException 403 (Msg Access_denied)))),
      sample_store)"
  by (simp add: handler_defs sample_defs update_task_def update_task_fields_def
        update_task_changes_def update_article_def update_article_try_def Let_def)

text \<open>
  C2. An update whose supplied fields all equal the current values appends no history
  record. This holds for articles when no file is attached. \<open>update_task\<close> compares
  nothing: it records every field that is supplied, so for tasks the history is left
  alone when the request supplies no field and no file.
\<close>

theorem noop_update_appends_no_history:
  "(images = [] \<and>
    (\<forall>a. articles d aid = Some a \<longrightarrow>
       (title' = None \<or> title' = Some (Article.title a)) \<and>
       (content' = None \<or> content' = Some (Article.content a))) \<longrightarrow>
    article_history (snd (serve e d u (UpdateArticle aid title' content' images))) =
      article_history d) \<and>
   task_history (snd (serve e d u (UpdateTask tid None None None None None None []))) =
     task_history d"
  by (auto simp: serve_def begin_session_def update_article_def update_article_try_def
        update_article_fields_def update_task_def update_task_fields_def
        update_task_changes_def commit_def rollback_def refresh_task_def refresh_article_def
        commit_refresh_task_def commit_refresh_article_def set_task_def set_article_def
        add_article_history_def Let_def
        split: option.splits if_splits)

theorem noop_update_appends_no_history_witness:
  "articles sample_store 20 = Some sample_article \<and>
   Some ''Pump manual'' = Some (Article.title sample_article) \<and>
   article_history (snd (serve sample_env sample_store alice
      (UpdateArticle 20 (Some ''Pump manual'') None []))) = article_history sample_store \<and>
   task_history (snd (serve sample_env sample_store alice
      (UpdateTask 10 None None None None None None []))) = task_history sample_store"
proof -
  have h: "([] :: upload list) = [] \<and>
    (\<forall>a. articles sample_store 20 = Some a \<longrightarrow>
       (Some ''Pump manual'' = None \<or> Some ''Pump manual'' = Some (Article.title a)) \<and>
       ((None :: string option) = None \<or> None = Some (Article.content a)))"
    by (simp add: sample_defs)
  from noop_update_appends_no_history
    [of "[]" sample_store 20 "Some ''Pump manual''" None sample_env alice 10] h
  show ?thesis by (simp add: sample_defs)
qed

text \<open>
  C2 as it is stated fails for tasks: Alice sends the title task 10 already has, and a
  TASK_UPDATED record is appended.
\<close>

theorem noop_task_update_appends_history:
  "tasks sample_store 10 = Some sample_task \<and> Task.title sample_task = ''Fix pump'' \<and>
   task_history sample_store = [] \<and>
   task_history (snd (serve sample_env sample_store alice
      (UpdateTask 10 (Some ''Fix pump'') None None None None None []))) =
     [\<lparr>TaskHistory.task_id = 10, TaskHistory.user_id = 1, TaskHistory.event = ''TASK_UPDATED'',
       TaskHistory.comment = None, TaskHistory.changes = Some [(''title'', JStr ''Fix pump'')]\<rparr>]"
  by (simp add: handler_defs sample_defs update_task_def update_task_fields_def
        update_task_changes_def Let_def)

text \<open>
  C3. An update that commits appends exactly one update record. For an article of which
  the title or the content differs, the record holds the old and the new value of
  exactly the fields that differ. For a task, the TASK_UPDATED record follows the
  IMAGE_ADDED records of the request and holds the new value of every field that is
  supplied, whether it differs or not (and the key \<open>image_paths\<close> when files are
  attached), and no other key.
\<close>

theorem update_appends_one_record:
  "(articles d aid = Some a \<and> \<not> Article.is_deleted a \<and>
    (Article.author_id a = User.user_id u \<or> User.role_id u = 2) \<and>
    (\<forall>img \<in> set images. file_ext img \<in> allowed_extensions) \<and> \<not> commit_fails e \<and>
    ((title' \<noteq> None \<and> title' \<noteq> Some (Article.title a)) \<or>
     (content' \<noteq> None \<and> content' \<noteq> Some (Article.content a))) \<longrightarrow>
    article_history (snd (serve e d u (UpdateArticle aid title' content' images))) =
      article_history d @
      [\<lparr>ArticleHistory.article_id = aid, ArticleHistory.user_id = User.user_id u,
        ArticleHistory.event = ''UPDATE'',
        ArticleHistory.old_title =
          (if title' \<noteq> None \<and> title' \<noteq> Some (Article.title a)
           then Some (Article.title a) else None),
        ArticleHistory.new_title =
          (if title' \<noteq> None \<and> title' \<noteq> Some (Article.title a) then title' else None),
        ArticleHistory.old_content =
          (if content' \<noteq> None \<and> content' \<noteq> Some (Article.content a)
           then Some (Article.content a) else None),
        ArticleHistory.new_content =
          (if content' \<noteq> None \<and> content' \<noteq> Some (Article.content a)
           then content' else None)\<rparr>]) \<and>
   (tasks d tid = Some t \<and> \<not> commit_fails e \<and>
    (\<forall>x. assignee_id' = Some x \<longrightarrow> (\<exists>usr. users d x = Some usr \<and> \<not> User.is_deleted usr)) \<and>
    (task_title \<noteq> None \<or> description' \<noteq> None \<or> assignee_id' \<noteq> None \<or> due_date' \<noteq> None \<or>
     status' \<noteq> None \<or> priority' \<noteq> None \<or> files \<noteq> []) \<longrightarrow>
    (\<exists>c. task_history (snd (serve e d u
             (UpdateTask tid task_title description' assignee_id' due_date' status' priority' files))) =
           task_history d @ map (image_added u tid) (task_file_names tid files) @
           [\<lparr>TaskHistory.task_id = tid, TaskHistory.user_id = User.user_id u,
             TaskHistory.event = ''TASK_UPDATED'', TaskHistory.comment = None,
             TaskHistory.changes = Some c\<rparr>] \<and>
         map fst c =
           (if task_title = None then [] else [''title'']) @
           (if description' = None then [] else [''description'']) @
           (if assignee_id' = None then [] else [''assignee_id'']) @
           (if due_date' = None then [] else [''due_date'']) @
           (if status' = None then [] else [''status'']) @
           (if priority' = None then [] else [''priority'']) @
           (if files = [] then [] else [''image_paths'']) \<and>
         map_of c ''title'' = map_option JStr task_title \<and>
         map_of c ''description'' = map_option JStr description' \<and>
         map_of c ''assignee_id'' = map_option JInt assignee_id' \<and>
         map_of c ''due_date'' = map_option JIso due_date' \<and>
         map_of c ''status'' = map_option JStatus status' \<and>
         map_of c ''priority'' = map_option JPriority priority'))"
proof (intro conjI impI)
  assume h: "articles d aid = Some a \<and> \<not> Article.is_deleted a \<and>
    (Article.author_id a = User.user_id u \<or> User.role_id u = 2) \<and>
    (\<forall>img \<in> set images. file_ext img \<in> allowed_extensions) \<and> \<not> commit_fails e \<and>
    ((title' \<noteq> None \<and> title' \<noteq> Some (Article.title a)) \<or>
     (content' \<noteq> None \<and> content' \<noteq> Some (Article.content a)))"
  then have "snd (serve e d u (UpdateArticle aid title' content' images)) =
      d\<lparr>articles := (articles d)(aid \<mapsto>
             a\<lparr>Article.title := (case title' of None \<Rightarrow> Article.title a | Some v \<Rightarrow> v),
               Article.content := (case content' of None \<Rightarrow> Article.content a | Some v \<Rightarrow> v)\<rparr>),
        article_images := article_images d @ article_image_rows aid images,
        article_history := article_history d @
          (if (title' \<noteq> None \<and> title' \<noteq> Some (Article.title a)) \<or>
              (content' \<noteq> None \<and> content' \<noteq> Some (Article.content a)) \<or> images \<noteq> []
           then [article_updated u aid a title' content'] else [])\<rparr>"
    using update_article_success [of d aid a u images e title' content'] by simp
  with h show "article_history (snd (serve e d u (UpdateArticle aid title' content' images))) =
      article_history d @
      [\<lparr>ArticleHistory.article_id = aid, ArticleHistory.user_id = User.user_id u,
        ArticleHistory.event = ''UPDATE'',
        ArticleHistory.old_title =
          (if title' \<noteq> None \<and> title' \<noteq> Some (Article.title a)
           then Some (Article.title a) else None),
        ArticleHistory.new_title =
          (if title' \<noteq> None \<and> title' \<noteq> Some (Article.title a) then title' else None),
        ArticleHistory.old_content =
          (if content' \<noteq> None \<and> content' \<noteq> Some (Article.content a)
           then Some (Article.content a) else None),
        ArticleHistory.new_content =
          (if content' \<noteq> None \<and> content' \<noteq> Some (Article.content a)
           then content' else None)\<rparr>]"
    by (auto simp: article_updated_def)
next
  assume h: "tasks d tid = Some t \<and> \<not> commit_fails e \<and>
    (\<forall>x. assignee_id' = Some x \<longrightarrow> (\<exists>usr. users d x = Some usr \<and> \<not> User.is_deleted usr)) \<and>
    (task_title \<noteq> None \<or> description' \<noteq> None \<or> assignee_id' \<noteq> None \<or> due_date' \<noteq> None \<or>
     status' \<noteq> None \<or> priority' \<noteq> None \<or> files \<noteq> [])"
  then have found: "tasks d tid = Some t" and ok: "\<not> commit_fails e"
    and asg: "\<forall>x. assignee_id' = Some x \<longrightarrow> (\<exists>usr. users d x = Some usr \<and> \<not> User.is_deleted usr)"
    by simp_all
  from update_task_success [OF found ok asg, of u task_title description' due_date' status' priority' files]
  obtain t' tm where s: "snd (serve e d u
        (UpdateTask tid task_title description' assignee_id' due_date' status' priority' files)) =
        d\<lparr>tasks := (tasks d)(tid \<mapsto> t'),
          task_history := task_history d @ map (image_added u tid) (task_file_names tid files) @
            (if update_task_changes tm task_title description' assignee_id' due_date' status' priority' files = [] then []
             else [task_updated u tid
                (update_task_changes tm task_title description' assignee_id' due_date' status' priority' files)])\<rparr>"
    by (metis snd_conv)
  let ?c = "update_task_changes tm task_title description' assignee_id' due_date' status' priority' files"
  have ne: "?c \<noteq> []"
    using h by (simp add: update_task_changes_empty)
  have keys: "map fst ?c =
           (if task_title = None then [] else [''title'']) @
           (if description' = None then [] else [''description'']) @
           (if assignee_id' = None then [] else [''assignee_id'']) @
           (if due_date' = None then [] else [''due_date'']) @
           (if status' = None then [] else [''status'']) @
           (if priority' = None then [] else [''priority'']) @
           (if files = [] then [] else [''image_paths''])"
    by (simp add: update_task_changes_def split: option.splits)
  show "\<exists>c. task_history (snd (serve e d u
             (UpdateTask tid task_title description' assignee_id' due_date' status' priority' files))) =
           task_history d @ map (image_added u tid) (task_file_names tid files) @
           [\<lparr>TaskHistory.task_id = tid, TaskHistory.user_id = User.user_id u,
             TaskHistory.event = ''TASK_UPDATED'', TaskHistory.comment = None,
             TaskHistory.changes = Some c\<rparr>] \<and>
         map fst c =
           (if task_title = None then [] else [''title'']) @
           (if description' = None then [] else [''description'']) @
           (if assignee_id' = None then [] else [''assignee_id'']) @
           (if due_date' = None then [] else [''due_date'']) @
           (if status' = None then [] else [''status'']) @
           (if priority' = None then [] else [''priority'']) @
           (if files = [] then [] else [''image_paths'']) \<and>
         map_of c ''title'' = map_option JStr task_title \<and>
         map_of c ''description'' = map_option JStr description' \<and>
         map_of c ''assignee_id'' = map_option JInt assignee_id' \<and>
         map_of c ''due_date'' = map_option JIso due_date' \<and>
         map_of c ''status'' = map_option JStatus status' \<and>
         map_of c ''priority'' = map_option JPriority priority'"
    apply (rule exI [of _ ?c])
    apply (intro conjI)
    subgoal using s ne by (simp add: task_updated_def)
    subgoal by (rule keys)
    by (rule update_task_changes_keys)+
qed

theorem update_appends_one_record_witness:
  "articles sample_store 20 = Some sample_article \<and>
   Article.title sample_article = ''Pump manual'' \<and>
   Article.content sample_article = ''Close the valve first.'' \<and>
   article_history (snd (serve sample_env sample_store alice
      (UpdateArticle 20 (Some ''Pump manual, 2nd edition'') (Some ''Close the valve first.'') []))) =
     article_history sample_store @
     [\<lparr>ArticleHistory.article_id = 20, ArticleHistory.user_id = 1,
       ArticleHistory.event = ''UPDATE'', ArticleHistory.old_title = Some ''Pump manual'',
       ArticleHistory.new_title = Some ''Pump manual, 2nd edition'',
       ArticleHistory.old_content = None, ArticleHistory.new_content = None\<rparr>] \<and>
   tasks sample_store 10 = Some sample_task \<and>
   (\<exists>c. task_history (snd (serve sample_env sample_store alice
           (UpdateTask 10 (Some ''Fix pump urgently'') None None None (Some COMPLETED) None []))) =
         task_history sample_store @
         [\<lparr>TaskHistory.task_id = 10, TaskHistory.user_id = 1,
           TaskHistory.event = ''TASK_UPDATED'', TaskHistory.comment = None,
           TaskHistory.changes = Some c\<rparr>] \<and>
        map fst c = [''title'', ''status''] \<and>
        map_of c ''title'' = Some (JStr ''Fix pump urgently'') \<and>
        map_of c ''description'' = None \<and>
        map_of c ''status'' = Some (JStatus COMPLETED))"
proof -
  have h1: "articles sample_store 20 = Some sample_article"
    and h2: "tasks sample_store 10 = Some sample_task"
    by (simp_all add: sample_store_def)
  from update_appends_one_record
    [of sample_store 20 sample_article alice "[]" sample_env "Some ''Pump manual, 2nd edition''"
        "Some ''Close the valve first.''" 10 sample_task None "Some ''Fix pump urgently''" None
        None "Some COMPLETED" None "[]"] h1 h2
  show ?thesis
    by (auto simp: sample_article_def sample_task_def alice_def sample_env_def
          task_file_names_def)
qed

text \<open>
  C3 as it is stated fails for tasks: the description sent is the one task 10 already
  has, and the TASK_UPDATED record holds it next to the changed title.
\<close>

theorem task_update_records_unchanged_field:
  "tasks sample_store 10 = Some sample_task \<and>
   Task.description sample_task = Some ''Pump 3 leaks'' \<and>
   task_history sample_store = [] \<and>
   task_history (snd (serve sample_env sample_store alice
      (UpdateTask 10 (Some ''Fix pump urgently'') (Some ''Pump 3 leaks'') None None None None []))) =
     [\<lparr>TaskHistory.task_id = 10, TaskHistory.user_id = 1, TaskHistory.event = ''TASK_UPDATED'',
       TaskHistory.comment = None,
       TaskHistory.changes = Some [(''title'', JStr ''Fix pump urgently''),
                                   (''description'', JStr ''Pump 3 leaks'')]\<rparr>]"
  by (simp add: handler_defs sample_defs update_task_def update_task_fields_def
        update_task_changes_def Let_def)

text \<open>
  C4. A restore that is refused because the entity is absent, not deleted, or deleted
  more than seven days ago is to fail with NotFound. The three cases are answered
  alike, but the 404 raised inside the \<open>try\<close> of \<open>restore_task\<close> and \<open>restore_article\<close>
  is caught by \<open>except Exception\<close>: the caller receives a 500 whose detail quotes the
  404. On day 100, task 12 and article 21 were deleted on day 92, task 10 and article
  20 are active, and no task or article 99 exists. On day 99, seven days after the
  deletion, the restore still succeeds.
\<close>

theorem restore_refusal_is_reported_as_500:
  "serve sample_env sample_store alice (RestoreTask 12) =
     (Inl (HTTPException 500
        (Wrapped Error_restoring_task (HTTPException 404 (Msg Task_not_found_or_expired)))),
      sample_store) \<and>
   serve sample_env sample_store alice (RestoreTask 10) =
     serve sample_env sample_store alice (RestoreTask 12) \<and>
   serve sample_env sample_store alice (RestoreTask 99) =
     serve sample_env sample_store alice (RestoreTask 12) \<and>
   serve sample_env sample_store alice (RestoreArticle 21) =
     (Inl (HTTPException 500
        (Wrapped Error_restoring_article
           (HTTPException 404 (Msg Article_not_found_or_expired)))),
      sample_store) \<and>
   serve sample_env sample_store alice (RestoreArticle 20) =
     serve sample_env sample_store alice (RestoreArticle 21) \<and>
   serve sample_env sample_store alice (RestoreArticle 99) =
     serve sample_env sample_store alice (RestoreArticle 21) \<and>
   fst (serve (sample_env\<lparr>utcnow := timedelta_days 99\<rparr>) sample_store alice (RestoreTask 12)) =
     Inr (TaskResponse 12 sample_task) \<and>
   fst (serve (sample_env\<lparr>utcnow := timedelta_days 99\<rparr>) sample_store alice
          (RestoreArticle 21)) =
     Inr (ArticleResponse 21 sample_article)"
  by (simp add: handler_defs sample_defs restore_task_def restore_task_try_def
        restore_article_def restore_article_try_def Let_def)

text \<open>
  C5. For every task and article the flag \<open>is_deleted\<close> is set exactly when \<open>deleted_at\<close>
  is not null, and every lifecycle request (create, update, delete, restore, reassign,
  whatever its outcome) keeps it so. A delete that commits sets the flag and the
  timestamp (to the time of the request) together, a restore that commits clears both
  together, and a created task or article has the flag unset and no timestamp.
\<close>

theorem soft_delete_flag_and_timestamp:
  "(soft_delete_inv d \<longrightarrow> soft_delete_inv (snd (serve e d u r))) \<and>
   (tasks d tk = Some t \<and> \<not> Task.is_deleted t \<and>
    (User.role_id u = ADMIN_ROLE_ID \<or> Task.author_id t = User.user_id u) \<and>
    \<not> commit_fails e \<longrightarrow>
    tasks (snd (serve e d u (DeleteTask tk))) tk =
      Some (t\<lparr>Task.is_deleted := True, Task.deleted_at := Some (utcnow e)\<rparr>)) \<and>
   (articles d ak = Some a \<and> \<not> Article.is_deleted a \<and>
    (Article.author_id a = User.user_id u \<or> User.role_id u = 2) \<and>
    \<not> commit_fails e \<longrightarrow>
    articles (snd (serve e d u (DeleteArticle ak))) ak =
      Some (a\<lparr>Article.is_deleted := True, Article.deleted_at := Some (utcnow e)\<rparr>)) \<and>
   (tasks d rk = Some rt \<and> Task.is_deleted rt \<and>
    (\<exists>stamp. Task.deleted_at rt = Some stamp \<and> utcnow e - timedelta_days 7 \<le> stamp) \<and>
    (User.role_id u = ADMIN_ROLE_ID \<or> Task.author_id rt = User.user_id u) \<and>
    \<not> commit_fails e \<longrightarrow>
    tasks (snd (serve e d u (RestoreTask rk))) rk =
      Some (rt\<lparr>Task.is_deleted := False, Task.deleted_at := None\<rparr>)) \<and>
   (articles d rak = Some ra \<and> Article.is_deleted ra \<and>
    (\<exists>stamp. Article.deleted_at ra = Some stamp \<and> utcnow e - timedelta_days 7 \<le> stamp) \<and>
    (Article.author_id ra = User.user_id u \<or> User.role_id u = 2) \<and>
    \<not> commit_fails e \<longrightarrow>
    articles (snd (serve e d u (RestoreArticle rak))) rak =
      Some (ra\<lparr>Article.is_deleted := False, Article.deleted_at := None\<rparr>)) \<and>
   (users d assignee = Some usr \<and> \<not> User.is_deleted usr \<and> tasks d (new_id e) = None \<and>
    \<not> commit_fails e \<longrightarrow>
    (\<exists>nt. tasks (snd (serve e d u
             (CreateTask task_title description' assignee due_date' status' priority' files)))
           (new_id e) = Some nt \<and>
          \<not> Task.is_deleted nt \<and> Task.deleted_at nt = None)) \<and>
   (articles d (new_id e) = None \<and> (\<forall>img \<in> set images. file_ext img \<in> allowed_extensions) \<and>
    \<not> commit_fails e \<longrightarrow>
    (\<exists>na. articles (snd (serve e d u (CreateArticle article_title content' images)))
           (new_id e) = Some na \<and>
          \<not> Article.is_deleted na \<and> Article.deleted_at na = None))"
proof (intro conjI impI)
  assume "soft_delete_inv d"
  then show "soft_delete_inv (snd (serve e d u r))"
    by (cases r)
       (simp_all add: create_task_inv update_task_inv delete_task_inv reassign_task_inv
          restore_task_inv create_article_inv update_article_inv delete_article_inv
          restore_article_inv)
next
  assume "tasks d tk = Some t \<and> \<not> Task.is_deleted t \<and>
    (User.role_id u = ADMIN_ROLE_ID \<or> Task.author_id t = User.user_id u) \<and>
    \<not> commit_fails e"
  then show "tasks (snd (serve e d u (DeleteTask tk))) tk =
      Some (t\<lparr>Task.is_deleted := True, Task.deleted_at := Some (utcnow e)\<rparr>)"
    by (auto simp: serve_def begin_session_def delete_task_def delete_task_try_def commit_def
          Let_def pending_tables)
next
  assume "articles d ak = Some a \<and> \<not> Article.is_deleted a \<and>
    (Article.author_id a = User.user_id u \<or> User.role_id u = 2) \<and>
    \<not> commit_fails e"
  then show "articles (snd (serve e d u (DeleteArticle ak))) ak =
      Some (a\<lparr>Article.is_deleted := True, Article.deleted_at := Some (utcnow e)\<rparr>)"
    by (auto simp: serve_def begin_session_def delete_article_def delete_article_try_def
          commit_def Let_def pending_tables)
next
  assume "tasks d rk = Some rt \<and> Task.is_deleted rt \<and>
    (\<exists>stamp. Task.deleted_at rt = Some stamp \<and> utcnow e - timedelta_days 7 \<le> stamp) \<and>
    (User.role_id u = ADMIN_ROLE_ID \<or> Task.author_id rt = User.user_id u) \<and>
    \<not> commit_fails e"
  then show "tasks (snd (serve e d u (RestoreTask rk))) rk =
      Some (rt\<lparr>Task.is_deleted := False, Task.deleted_at := None\<rparr>)"
    by (auto simp: serve_def begin_session_def restore_task_def restore_task_try_def
          restorable_def rollback_def Let_def tail_simps)
next
  assume "articles d rak = Some ra \<and> Article.is_deleted ra \<and>
    (\<exists>stamp. Article.deleted_at ra = Some stamp \<and> utcnow e - timedelta_days 7 \<le> stamp) \<and>
    (Article.author_id ra = User.user_id u \<or> User.role_id u = 2) \<and>
    \<not> commit_fails e"
  then show "articles (snd (serve e d u (RestoreArticle rak))) rak =
      Some (ra\<lparr>Article.is_deleted := False, Article.deleted_at := None\<rparr>)"
    by (auto simp: serve_def begin_session_def restore_article_def restore_article_try_def
          restorable_def rollback_def Let_def tail_simps)
next
  assume h: "users d assignee = Some usr \<and> \<not> User.is_deleted usr \<and> tasks d (new_id e) = None \<and>
    \<not> commit_fails e"
  then have "snd (serve e d u
        (CreateTask task_title description' assignee due_date' status' priority' files)) =
      d\<lparr>tasks := (tasks d)(new_id e \<mapsto>
          \<lparr>Task.title = task_title, Task.description = description', Task.status = status',
           Task.priority = priority', Task.due_date = map_option (to_utc_naive e) due_date',
           Task.author_id = User.user_id u, Task.assignee_id = assignee,
           Task.image_paths = Some (task_file_names (new_id e) files),
           Task.is_deleted = False, Task.deleted_at = None\<rparr>),
        task_history := task_history d @
          map (image_added u (new_id e)) (task_file_names (new_id e) files) @
          [task_created u (new_id e) task_title description' assignee
             (map_option (to_utc_naive e) due_date') status' priority']\<rparr>"
    using create_task_success [of d assignee usr e u task_title description' due_date'
        status' priority' files]
    by simp
  then show "\<exists>nt. tasks (snd (serve e d u
             (CreateTask task_title description' assignee due_date' status' priority' files)))
           (new_id e) = Some nt \<and>
          \<not> Task.is_deleted nt \<and> Task.deleted_at nt = None"
    by simp
next
  assume h: "articles d (new_id e) = None \<and>
    (\<forall>img \<in> set images. file_ext img \<in> allowed_extensions) \<and> \<not> commit_fails e"
  then have "snd (serve e d u (CreateArticle article_title content' images)) =
      d\<lparr>articles := (articles d)(new_id e \<mapsto>
          \<lparr>Article.title = article_title, Article.content = content',
           Article.author_id = User.user_id u, Article.is_deleted = False,
           Article.deleted_at = None\<rparr>),
        article_images := article_images d @ article_image_rows (new_id e) images,
        article_history := article_history d @
          [article_created u (new_id e) article_title content']\<rparr>"
    using create_article_success [of d e images u article_title content']
    by simp
  then show "\<exists>na. articles (snd (serve e d u (CreateArticle article_title content' images)))
           (new_id e) = Some na \<and>
          \<not> Article.is_deleted na \<and> Article.deleted_at na = None"
    by simp
qed

theorem soft_delete_flag_and_timestamp_witness:
  "soft_delete_inv sample_store \<and>
   soft_delete_inv (snd (serve (sample_env\<lparr>utcnow := timedelta_days 99\<rparr>) sample_store alice
      (DeleteTask 10))) \<and>
   tasks (snd (serve (sample_env\<lparr>utcnow := timedelta_days 99\<rparr>) sample_store alice
      (DeleteTask 10))) 10 =
     Some (sample_task\<lparr>Task.is_deleted := True, Task.deleted_at := Some (timedelta_days 99)\<rparr>) \<and>
   articles (snd (serve (sample_env\<lparr>utcnow := timedelta_days 99\<rparr>) sample_store alice
      (DeleteArticle 20))) 20 =
     Some (sample_article\<lparr>Article.is_deleted := True,
                          Article.deleted_at := Some (timedelta_days 99)\<rparr>) \<and>
   tasks (snd (serve (sample_env\<lparr>utcnow := timedelta_days 99\<rparr>) sample_store alice
      (RestoreTask 12))) 12 = Some sample_task \<and>
   articles (snd (serve (sample_env\<lparr>utcnow := timedelta_days 99\<rparr>) sample_store alice
      (RestoreArticle 21))) 21 = Some sample_article \<and>
   (\<exists>nt. tasks (snd (serve (sample_env\<lparr>utcnow := timedelta_days 99\<rparr>) sample_store alice
            (CreateTask ''Fix valve'' None 3 None ACTIVE MEDIUM [sample_png]))) 30 = Some nt \<and>
         \<not> Task.is_deleted nt \<and> Task.deleted_at nt = None) \<and>
   (\<exists>na. articles (snd (serve (sample_env\<lparr>utcnow := timedelta_days 99\<rparr>) sample_store alice
            (CreateArticle ''Valve manual'' ''Open slowly.'' [sample_png]))) 30 = Some na \<and>
         \<not> Article.is_deleted na \<and> Article.deleted_at na = None)"
proof -
  let ?e = "sample_env\<lparr>utcnow := timedelta_days 99\<rparr>"
  let ?rt = "sample_task\<lparr>Task.is_deleted := True, Task.deleted_at := Some (timedelta_days 92)\<rparr>"
  let ?ra = "sample_article\<lparr>Article.is_deleted := True,
                             Article.deleted_at := Some (timedelta_days 92)\<rparr>"
  have inv: "soft_delete_inv sample_store"
    by (auto simp: soft_delete_inv_def sample_defs split: if_splits)
  have del_task: "tasks sample_store 10 = Some sample_task \<and> \<not> Task.is_deleted sample_task \<and>
      (User.role_id alice = ADMIN_ROLE_ID \<or> Task.author_id sample_task = User.user_id alice) \<and>
      \<not> commit_fails ?e"
    and del_article: "articles sample_store 20 = Some sample_article \<and>
      \<not> Article.is_deleted sample_article \<and>
      (Article.author_id sample_article = User.user_id alice \<or> User.role_id alice = 2) \<and>
      \<not> commit_fails ?e"
    and res_task: "tasks sample_store 12 = Some ?rt \<and> Task.is_deleted ?rt \<and>
      (\<exists>stamp. Task.deleted_at ?rt = Some stamp \<and> utcnow ?e - timedelta_days 7 \<le> stamp) \<and>
      (User.role_id alice = ADMIN_ROLE_ID \<or> Task.author_id ?rt = User.user_id alice) \<and>
      \<not> commit_fails ?e"
    and res_article: "articles sample_store 21 = Some ?ra \<and> Article.is_deleted ?ra \<and>
      (\<exists>stamp. Article.deleted_at ?ra = Some stamp \<and> utcnow ?e - timedelta_days 7 \<le> stamp) \<and>
      (Article.author_id ?ra = User.user_id alice \<or> User.role_id alice = 2) \<and>
      \<not> commit_fails ?e"
    and new_task: "users sample_store 3 = Some bob \<and> \<not> User.is_deleted bob \<and>
      tasks sample_store (new_id ?e) = None \<and> \<not> commit_fails ?e"
    and new_article: "articles sample_store (new_id ?e) = None \<and>
      (\<forall>img \<in> set [sample_png]. file_ext img \<in> allowed_extensions) \<and> \<not> commit_fails ?e"
    by (simp_all add: sample_defs timedelta_days_def allowed_extensions_def)
  have restored: "?rt\<lparr>Task.is_deleted := False, Task.deleted_at := None\<rparr> = sample_task"
    "?ra\<lparr>Article.is_deleted := False, Article.deleted_at := None\<rparr> = sample_article"
    by (simp_all add: sample_task_def sample_article_def)
  have env: "utcnow ?e = timedelta_days 99" "new_id ?e = 30"
    by (simp_all add: sample_env_def)
  from soft_delete_flag_and_timestamp
    [of sample_store ?e alice "DeleteTask 10" 10 sample_task 20 sample_article 12 ?rt 21 ?ra
        3 bob "''Fix valve''" None None ACTIVE MEDIUM "[sample_png]" "[sample_png]"
        "''Valve manual''" "''Open slowly.''"]
    inv del_task del_article res_task res_article new_task new_article
  show ?thesis
    unfolding restored env by blast
qed

text \<open>
  C6. A delete of an entity that is already deleted or absent is to fail with NotFound
  and change nothing. Nothing is changed, but the 404 raised inside the \<open>try\<close> of
  \<open>delete_task\<close> and \<open>delete_article\<close> is caught by \<open>except Exception\<close>: the caller
  receives a 500 whose detail quotes the 404. The delete of the active task 10 by its
  author sets flag and timestamp and appends one TASK_DELETED record with title and
  description.
\<close>

theorem delete_refusal_is_reported_as_500:
  "serve sample_env sample_store alice (DeleteTask 12) =
     (Inl (HTTPException 500
        (Wrapped Error_deleting_task (HTTPException 404 (Msg Task_not_found)))),
      sample_store) \<and>
   serve sample_env sample_store alice (DeleteTask 99) =
     serve sample_env sample_store alice (DeleteTask 12) \<and>
   serve sample_env sample_store alice (DeleteArticle 21) =
     (Inl (HTTPException 500
        (Wrapped Error_deleting_article (HTTPException 404 (Msg Article_not_found)))),
      sample_store) \<and>
   serve sample_env sample_store alice (DeleteArticle 99) =
     serve sample_env sample_store alice (DeleteArticle 21) \<and>
   serve sample_env sample_store alice (DeleteTask 10) =
     (Inr (MessageResponse Task_deleted_ok),
      sample_store\<lparr>tasks := (tasks sample_store)(10 \<mapsto>
          sample_task\<lparr>Task.is_deleted := True, Task.deleted_at := Some (utcnow sample_env)\<rparr>),
        task_history :=
          [\<lparr>TaskHistory.task_id = 10, TaskHistory.user_id = 1,
            TaskHistory.event = ''TASK_DELETED'', TaskHistory.comment = None,
            TaskHistory.changes = Some [(''title'', JStr ''Fix pump''),
                                        (''description'', JStr ''Pump 3 leaks'')]\<rparr>]\<rparr>)"
  by (simp add: handler_defs sample_defs delete_task_def delete_task_try_def
        delete_article_def delete_article_try_def title_description_def Let_def)




text \<open>
  C8. A request that attaches n files and commits. A task create appends n IMAGE_ADDED
  records, one per file, before the single TASK_CREATED record, and the n stored names
  are the image list of the new task. A task update with files appends n IMAGE_ADDED
  records, one per file, before the single TASK_UPDATED record, and for a task that had
  no image the n stored names become its image list. An article create or update with
  files of an allowed type appends n \<open>ArticleImage\<close> rows, and the history receives the
  single CREATE or UPDATE record only: no record is written per file.
\<close>

theorem attached_files_are_recorded:
  "(users d assignee = Some usr \<and> \<not> User.is_deleted usr \<and> tasks d (new_id e) = None \<and>
    \<not> commit_fails e \<longrightarrow>
    (\<exists>t' h. snd (serve e d u
               (CreateTask task_title description' assignee due_date' status' priority' files)) =
         d\<lparr>tasks := (tasks d)(new_id e \<mapsto> t'),
           task_history := task_history d @
             map (\<lambda>img. \<lparr>TaskHistory.task_id = new_id e, TaskHistory.user_id = User.user_id u,
                          TaskHistory.event = ''IMAGE_ADDED'', TaskHistory.comment = None,
                          TaskHistory.changes = Some [(''image_path'',
                            JStr (task_save_uploaded_file img (new_id e)))]\<rparr>) files @
             [h]\<rparr> \<and>
        TaskHistory.event h = ''TASK_CREATED'' \<and>
        Task.image_paths t' =
          Some (map (\<lambda>img. task_save_uploaded_file img (new_id e)) files))) \<and>
   (tasks d tid = Some t \<and> \<not> commit_fails e \<and> files \<noteq> [] \<and>
    (\<forall>x. upd_assignee = Some x \<longrightarrow> (\<exists>usr. users d x = Some usr \<and> \<not> User.is_deleted usr)) \<longrightarrow>
    (\<exists>t' h. snd (serve e d u
               (UpdateTask tid upd_title upd_description upd_assignee upd_due upd_status
                  upd_priority files)) =
         d\<lparr>tasks := (tasks d)(tid \<mapsto> t'),
           task_history := task_history d @
             map (\<lambda>img. \<lparr>TaskHistory.task_id = tid, TaskHistory.user_id = User.user_id u,
                          TaskHistory.event = ''IMAGE_ADDED'', TaskHistory.comment = None,
                          TaskHistory.changes = Some [(''image_path'',
                            JStr (task_save_uploaded_file img tid))]\<rparr>) files @
             [h]\<rparr> \<and>
        TaskHistory.event h = ''TASK_UPDATED'' \<and>
        (Task.image_paths t = None \<or> Task.image_paths t = Some [] \<longrightarrow>
         Task.image_paths t' = Some (map (\<lambda>img. task_save_uploaded_file img tid) files)))) \<and>
   (articles d (new_id e) = None \<and> \<not> commit_fails e \<and>
    (\<forall>img \<in> set images. file_ext img \<in> allowed_extensions) \<longrightarrow>
    (\<exists>a' h. snd (serve e d u (CreateArticle article_title content' images)) =
         d\<lparr>articles := (articles d)(new_id e \<mapsto> a'),
           article_images := article_images d @
             map (\<lambda>img. \<lparr>ArticleImage.article_id = new_id e,
                          ArticleImage.image_path = ''article_'' @ token img @ file_ext img\<rparr>)
               images,
           article_history := article_history d @ [h]\<rparr> \<and>
        ArticleHistory.event h = ''CREATE'')) \<and>
   (articles d aid = Some a \<and> \<not> Article.is_deleted a \<and>
    (Article.author_id a = User.user_id u \<or> User.role_id u = 2) \<and> \<not> commit_fails e \<and>
    images \<noteq> [] \<and> (\<forall>img \<in> set images. file_ext img \<in> allowed_extensions) \<longrightarrow>
    (\<exists>a' h. snd (serve e d u (UpdateArticle aid upd_article_title upd_content images)) =
         d\<lparr>articles := (articles d)(aid \<mapsto> a'),
           article_images := article_images d @
             map (\<lambda>img. \<lparr>ArticleImage.article_id = aid,
                          ArticleImage.image_path = ''article_'' @ token img @ file_ext img\<rparr>)
               images,
           article_history := article_history d @ [h]\<rparr> \<and>
        ArticleHistory.event h = ''UPDATE''))"
proof (intro conjI impI)
  assume h: "users d assignee = Some usr \<and> \<not> User.is_deleted usr \<and> tasks d (new_id e) = None \<and>
    \<not> commit_fails e"
  show "\<exists>t' h. snd (serve e d u
               (CreateTask task_title description' assignee due_date' status' priority' files)) =
         d\<lparr>tasks := (tasks d)(new_id e \<mapsto> t'),
           task_history := task_history d @
             map (\<lambda>img. \<lparr>TaskHistory.task_id = new_id e, TaskHistory.user_id = User.user_id u,
                          TaskHistory.event = ''IMAGE_ADDED'', TaskHistory.comment = None,
                          TaskHistory.changes = Some [(''image_path'',
                            JStr (task_save_uploaded_file img (new_id e)))]\<rparr>) files @
             [h]\<rparr> \<and>
        TaskHistory.event h = ''TASK_CREATED'' \<and>
        Task.image_paths t' =
          Some (map (\<lambda>img. task_save_uploaded_file img (new_id e)) files)"
    apply (rule exI [of _ "\<lparr>Task.title = task_title, Task.description = description',
         Task.status = status', Task.priority = priority',
         Task.due_date = map_option (to_utc_naive e) due_date',
         Task.author_id = User.user_id u, Task.assignee_id = assignee,
         Task.image_paths = Some (task_file_names (new_id e) files),
         Task.is_deleted = False, Task.deleted_at = None\<rparr>"])
    apply (rule exI [of _ "task_created u (new_id e) task_title description' assignee
         (map_option (to_utc_naive e) due_date') status' priority'"])
    using h create_task_success [of d assignee usr e u task_title description' due_date'
        status' priority' files]
    by (simp add: task_created_def task_file_names_def image_added_def comp_def)
next
  assume h: "tasks d tid = Some t \<and> \<not> commit_fails e \<and> files \<noteq> [] \<and>
    (\<forall>x. upd_assignee = Some x \<longrightarrow> (\<exists>usr. users d x = Some usr \<and> \<not> User.is_deleted usr))"
  then have found: "tasks d tid = Some t" and ok: "\<not> commit_fails e" and attached: "files \<noteq> []"
    and asg: "\<forall>x. upd_assignee = Some x \<longrightarrow>
      (\<exists>usr. users d x = Some usr \<and> \<not> User.is_deleted usr)"
    by simp_all
  from update_task_success [OF found ok asg,
      of u upd_title upd_description upd_due upd_status upd_priority files]
  obtain t' tm where s: "snd (serve e d u
        (UpdateTask tid upd_title upd_description upd_assignee upd_due upd_status
           upd_priority files)) =
        d\<lparr>tasks := (tasks d)(tid \<mapsto> t'),
          task_history := task_history d @ map (image_added u tid) (task_file_names tid files) @
            (if update_task_changes tm upd_title upd_description upd_assignee upd_due
                  upd_status upd_priority files = [] then []
             else [task_updated u tid
                     (update_task_changes tm upd_title upd_description upd_assignee upd_due
                        upd_status upd_priority files)])\<rparr>"
    and p: "Task.image_paths t' =
       (if files = [] then Task.image_paths t
        else flushed_image_paths (Task.image_paths t)
               ((case Task.image_paths t of None \<Rightarrow> [] | Some ps \<Rightarrow> ps) @
                task_file_names tid files))"
    by (metis snd_conv)
  have ne: "update_task_changes tm upd_title upd_description upd_assignee upd_due
                  upd_status upd_priority files \<noteq> []"
    using attached by (simp add: update_task_changes_empty)
  show "\<exists>t' h. snd (serve e d u
               (UpdateTask tid upd_title upd_description upd_assignee upd_due upd_status
                  upd_priority files)) =
         d\<lparr>tasks := (tasks d)(tid \<mapsto> t'),
           task_history := task_history d @
             map (\<lambda>img. \<lparr>TaskHistory.task_id = tid, TaskHistory.user_id = User.user_id u,
                          TaskHistory.event = ''IMAGE_ADDED'', TaskHistory.comment = None,
                          TaskHistory.changes = Some [(''image_path'',
                            JStr (task_save_uploaded_file img tid))]\<rparr>) files @
             [h]\<rparr> \<and>
        TaskHistory.event h = ''TASK_UPDATED'' \<and>
        (Task.image_paths t = None \<or> Task.image_paths t = Some [] \<longrightarrow>
         Task.image_paths t' = Some (map (\<lambda>img. task_save_uploaded_file img tid) files))"
    apply (rule exI [of _ t'])
    apply (rule exI [of _ "task_updated u tid
        (update_task_changes tm upd_title upd_description upd_assignee upd_due
           upd_status upd_priority files)"])
    using s p ne attached
    by (auto simp: task_updated_def task_file_names_def image_added_def comp_def
          flushed_image_paths_def)
next
  assume h: "articles d (new_id e) = None \<and> \<not> commit_fails e \<and>
    (\<forall>img \<in> set images. file_ext img \<in> allowed_extensions)"
  show "\<exists>a' h. snd (serve e d u (CreateArticle article_title content' images)) =
         d\<lparr>articles := (articles d)(new_id e \<mapsto> a'),
           article_images := article_images d @
             map (\<lambda>img. \<lparr>ArticleImage.article_id = new_id e,
                          ArticleImage.image_path = ''article_'' @ token img @ file_ext img\<rparr>)
               images,
           article_history := article_history d @ [h]\<rparr> \<and>
        ArticleHistory.event h = ''CREATE''"
    apply (rule exI [of _ "\<lparr>Article.title = article_title, Article.content = content',
         Article.author_id = User.user_id u, Article.is_deleted = False,
         Article.deleted_at = None\<rparr>"])
    apply (rule exI [of _ "article_created u (new_id e) article_title content'"])
    using h create_article_success [of d e images u article_title content']
    by (simp add: article_created_def article_image_rows_def)
next
  assume h: "articles d aid = Some a \<and> \<not> Article.is_deleted a \<and>
    (Article.author_id a = User.user_id u \<or> User.role_id u = 2) \<and> \<not> commit_fails e \<and>
    images \<noteq> [] \<and> (\<forall>img \<in> set images. file_ext img \<in> allowed_extensions)"
  show "\<exists>a' h. snd (serve e d u (UpdateArticle aid upd_article_title upd_content images)) =
         d\<lparr>articles := (articles d)(aid \<mapsto> a'),
           article_images := article_images d @
             map (\<lambda>img. \<lparr>ArticleImage.article_id = aid,
                          ArticleImage.image_path = ''article_'' @ token img @ file_ext img\<rparr>)
               images,
           article_history := article_history d @ [h]\<rparr> \<and>
        ArticleHistory.event h = ''UPDATE''"
    apply (rule exI [of _ "a\<lparr>Article.title :=
          (case upd_article_title of None \<Rightarrow> Article.title a | Some v \<Rightarrow> v),
        Article.content := (case upd_content of None \<Rightarrow> Article.content a | Some v \<Rightarrow> v)\<rparr>"])
    apply (rule exI [of _ "article_updated u aid a upd_article_title upd_content"])
    using h update_article_success [of d aid a u images e upd_article_title upd_content]
    by (simp add: article_updated_def article_image_rows_def)
qed

theorem attached_files_are_recorded_witness:
  "users sample_store 3 = Some bob \<and> \<not> User.is_deleted bob \<and>
   tasks sample_store (new_id sample_env) = None \<and> \<not> commit_fails sample_env \<and>
   tasks sample_store 10 = Some sample_task \<and> Task.image_paths sample_task = Some [] \<and>
   articles sample_store (new_id sample_env) = None \<and>
   articles sample_store 20 = Some sample_article \<and>
   file_ext sample_png \<in> allowed_extensions \<and>
   map TaskHistory.event (task_history (snd (serve sample_env sample_store alice
      (CreateTask ''Fix valve'' None 3 None ACTIVE MEDIUM [sample_png, sample_png])))) =
     [''IMAGE_ADDED'', ''IMAGE_ADDED'', ''TASK_CREATED''] \<and>
   map TaskHistory.event (task_history (snd (serve sample_env sample_store alice
      (UpdateTask 10 None None None None None None [sample_png, sample_png])))) =
     [''IMAGE_ADDED'', ''IMAGE_ADDED'', ''TASK_UPDATED''] \<and>
   (\<exists>t'. tasks (snd (serve sample_env sample_store alice
      (UpdateTask 10 None None None None None None [sample_png, sample_png]))) 10 = Some t' \<and>
      Task.image_paths t' =
        Some [task_save_uploaded_file sample_png 10, task_save_uploaded_file sample_png 10]) \<and>
   map ArticleHistory.event (article_history (snd (serve sample_env sample_store alice
      (CreateArticle ''Valve manual'' ''Open slowly.'' [sample_png, sample_png])))) =
     [''CREATE''] \<and>
   map ArticleHistory.event (article_history (snd (serve sample_env sample_store alice
      (UpdateArticle 20 (Some ''Pump manual, 2nd edition'') None [sample_png, sample_png])))) =
     [''UPDATE''] \<and>
   length (article_images (snd (serve sample_env sample_store alice
      (UpdateArticle 20 (Some ''Pump manual, 2nd edition'') None [sample_png, sample_png])))) = 2"
proof -
  have h1: "users sample_store 3 = Some bob \<and> \<not> User.is_deleted bob \<and>
      tasks sample_store (new_id sample_env) = None \<and> \<not> commit_fails sample_env"
    and h2: "tasks sample_store 10 = Some sample_task \<and> \<not> commit_fails sample_env \<and>
      [sample_png, sample_png] \<noteq> [] \<and>
      (\<forall>x. (None :: int option) = Some x \<longrightarrow>
         (\<exists>usr. users sample_store x = Some usr \<and> \<not> User.is_deleted usr))"
    and h3: "articles sample_store (new_id sample_env) = None \<and> \<not> commit_fails sample_env \<and>
      (\<forall>img \<in> set [sample_png, sample_png]. file_ext img \<in> allowed_extensions)"
    and h4: "articles sample_store 20 = Some sample_article \<and>
      \<not> Article.is_deleted sample_article \<and>
      (Article.author_id sample_article = User.user_id alice \<or> User.role_id alice = 2) \<and>
      \<not> commit_fails sample_env \<and> [sample_png, sample_png] \<noteq> [] \<and>
      (\<forall>img \<in> set [sample_png, sample_png]. file_ext img \<in> allowed_extensions)"
    and h5: "Task.image_paths sample_task = None \<or> Task.image_paths sample_task = Some []"
    by (simp_all add: sample_defs allowed_extensions_def)
  have hist: "task_history sample_store = []" "article_history sample_store = []"
    "article_images sample_store = []"
    by (simp_all add: sample_store_def)
  from attached_files_are_recorded
    [where d = sample_store and assignee = 3 and usr = bob and e = sample_env and u = alice
       and task_title = "''Fix valve''" and description' = None and due_date' = None
       and status' = ACTIVE and priority' = MEDIUM and files = "[sample_png, sample_png]"
       and tid = 10 and t = sample_task and upd_assignee = None and upd_title = None
       and upd_description = None and upd_due = None and upd_status = None
       and upd_priority = None and images = "[sample_png, sample_png]"
       and article_title = "''Valve manual''" and content' = "''Open slowly.''"
       and aid = 20 and a = sample_article
       and upd_article_title = "Some ''Pump manual, 2nd edition''" and upd_content = None]
    h1 h2 h3 h4 h5 hist
  show ?thesis
    by (auto simp: sample_task_def)
qed

text \<open>
  C8 as it is stated fails for articles: an article created with one file gets one
  image row and one history record, the CREATE record; no IMAGE_ADDED record exists.
\<close>

theorem article_files_leave_no_image_added_record:
  "articles sample_store 30 = None \<and> article_history sample_store = [] \<and>
   article_images sample_store = [] \<and>
   fst (serve sample_env sample_store alice
      (CreateArticle ''Valve manual'' ''Open slowly.'' [sample_png])) =
     Inr (ArticleResponse 30
       \<lparr>Article.title = ''Valve manual'', Article.content = ''Open slowly.'',
        Article.author_id = 1, Article.is_deleted = False, Article.deleted_at = None\<rparr>) \<and>
   article_images (snd (serve sample_env sample_store alice
      (CreateArticle ''Valve manual'' ''Open slowly.'' [sample_png]))) =
     [\<lparr>ArticleImage.article_id = 30, ArticleImage.image_path = ''article_9f3a61c2.png''\<rparr>] \<and>
   article_history (snd (serve sample_env sample_store alice
      (CreateArticle ''Valve manual'' ''Open slowly.'' [sample_png]))) =
     [\<lparr>ArticleHistory.article_id = 30, ArticleHistory.user_id = 1,
       ArticleHistory.event = ''CREATE'', ArticleHistory.old_title = None,
       ArticleHistory.new_title = Some ''Valve manual'', ArticleHistory.old_content = None,
       ArticleHistory.new_content = Some ''Open slowly.''\<rparr>]"
  by (simp add: handler_defs sample_defs create_article_def create_article_try_def
        article_save_uploaded_file_def allowed_extensions_def Let_def)

text \<open>
  C9. \<open>update_task\<close> selects the task by its key alone, so a soft-deleted task is found
  and updated: Alice renames task 12, which is deleted, the task stays deleted and a
  TASK_UPDATED record is appended. \<open>update_article\<close> selects active articles only and
  is to reject a deleted article with NotFound: for article 21, which is deleted, its
  \<open>try\<close> block raises the 404 and nothing is changed, but \<open>except Exception\<close> catches the
  404 and the caller receives a 500 whose detail quotes it.
\<close>

theorem deleted_article_update_is_reported_as_500:
  "tasks sample_store 12 =
     Some (sample_task\<lparr>Task.is_deleted := True, Task.deleted_at := Some (timedelta_days 92)\<rparr>) \<and>
   serve sample_env sample_store alice
     (UpdateTask 12 (Some ''Fix pump urgently'') None None None None None []) =
     (Inr (TaskResponse 12
        (sample_task\<lparr>Task.title := ''Fix pump urgently'', Task.is_deleted := True,
                      Task.deleted_at := Some (timedelta_days 92)\<rparr>)),
      sample_store\<lparr>tasks := (tasks sample_store)(12 \<mapsto>
          sample_task\<lparr>Task.title := ''Fix pump urgently'', Task.is_deleted := True,
                        Task.deleted_at := Some (timedelta_days 92)\<rparr>),
        task_history :=
          [\<lparr>TaskHistory.task_id = 12, TaskHistory.user_id = 1,
            TaskHistory.event = ''TASK_UPDATED'', TaskHistory.comment = None,
            TaskHistory.changes = Some [(''title'', JStr ''Fix pump urgently'')]\<rparr>]\<rparr>) \<and>
   articles sample_store 21 =
     Some (sample_article\<lparr>Article.is_deleted := True,
                          Article.deleted_at := Some (timedelta_days 92)\<rparr>) \<and>
   update_article_try sample_env (begin_session sample_store) alice 21
       (Some ''Pump manual, 2nd edition'') None [] =
     (Inl (HTTPException 404 (Msg Article_not_found)), begin_session sample_store) \<and>
   serve sample_env sample_store alice
     (UpdateArticle 21 (Some ''Pump manual, 2nd edition'') None []) =
     (Inl (HTTPException 500
        (Wrapped Error_updating_article (HTTPException 404 (Msg Article_not_found)))),
      sample_store)"
  by (simp add: handler_defs sample_defs update_task_def update_task_fields_def
        update_task_changes_def update_article_def update_article_try_def Let_def)

text \<open>
  C10. An article update that attaches files and changes neither title nor content
  appends exactly one UPDATE record whose four value fields are all null; the files
  become \<open>ArticleImage\<close> rows and appear nowhere in the history record.
\<close>

theorem images_only_article_update:
  assumes "articles d aid = Some a" and "\<not> Article.is_deleted a"
    and "Article.author_id a = User.user_id u \<or> User.role_id u = 2"
    and "images \<noteq> []" and "\<forall>img \<in> set images. file_ext img \<in> allowed_extensions"
    and "\<not> commit_fails e"
    and "title' = None \<or> title' = Some (Article.title a)"
    and "content' = None \<or> content' = Some (Article.content a)"
  shows "article_history (snd (serve e d u (UpdateArticle aid title' content' images))) =
       article_history d @
       [\<lparr>ArticleHistory.article_id = aid, ArticleHistory.user_id = User.user_id u,
         ArticleHistory.event = ''UPDATE'', ArticleHistory.old_title = None,
         ArticleHistory.new_title = None, ArticleHistory.old_content = None,
         ArticleHistory.new_content = None\<rparr>] \<and>
     article_images (snd (serve e d u (UpdateArticle aid title' content' images))) =
       article_images d @
       map (\<lambda>img. \<lparr>ArticleImage.article_id = aid,
                    ArticleImage.image_path = ''article_'' @ token img @ file_ext img\<rparr>) images"
  using assms(4,7,8) update_article_success [OF assms(1,2,3,5,6), of title' content']
  by (auto simp: article_updated_def article_image_rows_def)

theorem images_only_article_update_witness:
  "articles sample_store 20 = Some sample_article \<and>
   \<not> Article.is_deleted sample_article \<and>
   Article.author_id sample_article = User.user_id alice \<and>
   file_ext sample_png \<in> allowed_extensions \<and> \<not> commit_fails sample_env \<and>
   article_history (snd (serve sample_env sample_store alice
       (UpdateArticle 20 None (Some ''Close the valve first.'') [sample_png]))) =
     [\<lparr>ArticleHistory.article_id = 20, ArticleHistory.user_id = 1,
       ArticleHistory.event = ''UPDATE'', ArticleHistory.old_title = None,
       ArticleHistory.new_title = None, ArticleHistory.old_content = None,
       ArticleHistory.new_content = None\<rparr>] \<and>
   article_images (snd (serve sample_env sample_store alice
       (UpdateArticle 20 None (Some ''Close the valve first.'') [sample_png]))) =
     [\<lparr>ArticleImage.article_id = 20, ArticleImage.image_path = ''article_9f3a61c2.png''\<rparr>]"
proof -
  have h1: "articles sample_store 20 = Some sample_article"
    and h2: "\<not> Article.is_deleted sample_article"
    and h3: "Article.author_id sample_article = User.user_id alice \<or> User.role_id alice = 2"
    and h4: "[sample_png] \<noteq> []"
    and h5: "\<forall>img \<in> set [sample_png]. file_ext img \<in> allowed_extensions"
    and h6: "\<not> commit_fails sample_env"
    and h7: "(None :: string option) = None \<or> None = Some (Article.title sample_article)"
    and h8: "Some ''Close the valve first.'' = None \<or>
             Some ''Close the valve first.'' = Some (Article.content sample_article)"
    by (simp_all add: sample_defs allowed_extensions_def)
  from images_only_article_update [OF h1 h2 h3 h4 h5 h6 h7 h8] h1 h2 h3 h5 h6
  show ?thesis
    by (simp add: sample_defs)
qed

end
